theory Spec2Isabelle
  imports Complex_Main "HOL-Library.Word"
begin

section \<open>The meeting-transcription handler\<close>

text \<open>
  The repository holds two copies of one serverless function \<^verbatim>\<open>handler(req, res)\<close>:
  \<^verbatim>\<open>src/api/transcribe.js\<close> and the older \<^verbatim>\<open>src/unnamed/part_000\<close>.  The newer copy adds the
  WorkDrive URL rewrite, the HTTP status in the download error and the file-type detection;
  every other line is the same in both.  Both are embedded here: \<open>handler\<close> is the function
  of \<^verbatim>\<open>src/api/transcribe.js\<close>, \<open>handler_part_000\<close> the one of \<^verbatim>\<open>src/unnamed/part_000\<close>, and
  the definitions they share embed the lines that are identical in the two files.

  The function is asynchronous but strictly sequential (each call is awaited before the next
  statement runs), so it is embedded as a pure function of the request and of the external
  world \<open>env\<close>, returning the response written to \<^verbatim>\<open>res\<close> together with the list of the
  external calls it made, in order.  Console logging is not part of the model, and building
  the client with \<^verbatim>\<open>new OpenAI\<close> makes no call and does not throw: the key it is given
  travels with each call of the two services.
\<close>

subsection \<open>JavaScript values\<close>

text \<open>
  Everything the handler receives from outside (the request body, the transcription, the
  chat completion, the parsed analysis) is JSON data, on which the code works dynamically
  (\<^verbatim>\<open>!x\<close>, \<^verbatim>\<open>x || d\<close>, property reads).  Numbers are the finite JSON numbers, so there is no NaN
  among the values; strings are lists of characters.
\<close>

datatype jsval =
    JUndefined
  | JNull
  | JBool bool
  | JNum real
  | JStr string
  | JArr "jsval list"
  | JObj "(string \<times> jsval) list"

text \<open>What the engine complains about when it raises a TypeError.\<close>

datatype type_error =
    CannotDestructure jsval
  | CannotReadProperty jsval string
  | NotAFunction jsval string

text \<open>A thrown exception; all the handler ever reads of it is \<^verbatim>\<open>error.message\<close>.\<close>

datatype js_error = TypeError string | Error string | SyntaxError string

fun message :: "js_error \<Rightarrow> string" where
  "message (TypeError m) = m"
| "message (Error m) = m"
| "message (SyntaxError m) = m"

type_synonym bytes = "8 word list"

subsection \<open>The external world\<close>

text \<open>The \<^verbatim>\<open>Response\<close> of \<^verbatim>\<open>fetch\<close>, as far as the handler reads it.\<close>

record fetch_response =
  ok :: bool
  status :: nat
  statusText :: string
  arrayBuffer :: "js_error + bytes"

text \<open>
  The argument of \<^verbatim>\<open>openai.audio.transcriptions.create\<close>: the \<^verbatim>\<open>File\<close> (content, name, type),
  the three fixed options, and the key the client was built with.
\<close>

record transcription_params =
  tp_apiKey :: jsval
  file_content :: bytes
  file_name :: string
  file_type :: string
  tp_model :: string
  tp_response_format :: string
  timestamp_granularities :: "string list"

text \<open>
  The argument of \<^verbatim>\<open>openai.chat.completions.create\<close>; a message is its role and its content,
  \<open>json_object\<close> says whether \<^verbatim>\<open>response_format: { type: 'json_object' }\<close> was given.
\<close>

record chat_params =
  cp_apiKey :: jsval
  cp_model :: string
  messages :: "(string \<times> jsval) list"
  json_object :: bool
  max_tokens :: nat

datatype call =
    FetchCall jsval
  | TranscriptionCall transcription_params
  | ChatCall chat_params

text \<open>
  The collaborators the handler calls, and the built-ins of the language whose result the
  source does not determine: \<^verbatim>\<open>JSON.parse\<close> on a string, the conversions of a value that is
  not yet a string or a number, and the wording of the engine's TypeErrors.
\<close>

record env =
  fetch :: "jsval \<Rightarrow> js_error + fetch_response"
  transcriptions_create :: "transcription_params \<Rightarrow> js_error + jsval"
  chat_completions_create :: "chat_params \<Rightarrow> js_error + jsval"
  JSON_parse :: "string \<Rightarrow> js_error + jsval"
  ToString :: "jsval \<Rightarrow> js_error + string"
  ToNumber :: "jsval \<Rightarrow> js_error + real option"
  TypeErrorText :: "type_error \<Rightarrow> string"

subsection \<open>Request and response\<close>

record request =
  req_method :: string
  req_body :: jsval

text \<open>\<open>res_body\<close> is \<open>None\<close> after \<^verbatim>\<open>res.end()\<close> and the object given to \<^verbatim>\<open>res.json\<close> otherwise.\<close>

record response =
  res_status :: nat
  res_headers :: "(string \<times> string) list"
  res_body :: "jsval option"

subsection \<open>The language operations the handler uses\<close>

text \<open>\<^verbatim>\<open>!x\<close> is \<open>\<not> truthy x\<close>.\<close>

fun truthy :: "jsval \<Rightarrow> bool" where
  "truthy JUndefined = False"
| "truthy JNull = False"
| "truthy (JBool b) = b"
| "truthy (JNum n) = (n \<noteq> 0)"
| "truthy (JStr s) = (s \<noteq> [])"
| "truthy (JArr xs) = True"
| "truthy (JObj kvs) = True"

text \<open>\<^verbatim>\<open>a || b\<close>\<close>

definition js_or :: "jsval \<Rightarrow> jsval \<Rightarrow> jsval" where
  "js_or a b = (if truthy a then a else b)"

definition nullish :: "jsval \<Rightarrow> bool" where
  "nullish v = (v = JUndefined \<or> v = JNull)"

text \<open>
  \<^verbatim>\<open>v.k\<close> for a value that is neither \<^verbatim>\<open>undefined\<close> nor \<^verbatim>\<open>null\<close>, for the names the handler
  reads (none of them is inherited from a prototype, except \<^verbatim>\<open>length\<close> on arrays and strings).
\<close>

fun read_prop :: "jsval \<Rightarrow> string \<Rightarrow> jsval" where
  "read_prop (JObj kvs) k = (case map_of kvs k of Some v \<Rightarrow> v | None \<Rightarrow> JUndefined)"
| "read_prop (JArr xs) k = (if k = ''length'' then JNum (real (length xs)) else JUndefined)"
| "read_prop (JStr s) k = (if k = ''length'' then JNum (real (length s)) else JUndefined)"
| "read_prop v k = JUndefined"

text \<open>\<^verbatim>\<open>v.k\<close> in general: reading a property of \<^verbatim>\<open>undefined\<close> or \<^verbatim>\<open>null\<close> throws.\<close>

definition get_prop :: "env \<Rightarrow> jsval \<Rightarrow> string \<Rightarrow> js_error + jsval" where
  "get_prop env v k =
     (if nullish v then Inl (TypeError (TypeErrorText env (CannotReadProperty v k)))
      else Inr (read_prop v k))"

fun decimal :: "nat \<Rightarrow> string" where
  "decimal n =
     (if n < 10 then [''0123456789'' ! n]
      else decimal (n div 10) @ [''0123456789'' ! (n mod 10)])"

declare decimal.simps [simp del]

text \<open>\<^verbatim>\<open>v[i]\<close>\<close>

definition get_index :: "env \<Rightarrow> jsval \<Rightarrow> nat \<Rightarrow> js_error + jsval" where
  "get_index env v i =
     (if nullish v then Inl (TypeError (TypeErrorText env (CannotReadProperty v (decimal i))))
      else Inr (case v of
          JArr xs \<Rightarrow> (if i < length xs then xs ! i else JUndefined)
        | JStr s \<Rightarrow> (if i < length s then JStr [s ! i] else JUndefined)
        | JObj kvs \<Rightarrow> (case map_of kvs (decimal i) of Some x \<Rightarrow> x | None \<Rightarrow> JUndefined)
        | _ \<Rightarrow> JUndefined))"

text \<open>The conversion to a string of a template literal and of \<^verbatim>\<open>+\<close> with a string.\<close>

definition to_string :: "env \<Rightarrow> jsval \<Rightarrow> js_error + string" where
  "to_string env v =
     (case v of
        JStr s \<Rightarrow> Inr s
      | JUndefined \<Rightarrow> Inr ''undefined''
      | JNull \<Rightarrow> Inr ''null''
      | JBool b \<Rightarrow> Inr (if b then ''true'' else ''false'')
      | _ \<Rightarrow> ToString env v)"

text \<open>The conversion to a number; \<open>None\<close> is NaN.\<close>

definition to_number :: "env \<Rightarrow> jsval \<Rightarrow> js_error + real option" where
  "to_number env v =
     (case v of
        JNum n \<Rightarrow> Inr (Some n)
      | JUndefined \<Rightarrow> Inr None
      | JNull \<Rightarrow> Inr (Some 0)
      | JBool b \<Rightarrow> Inr (Some (if b then 1 else 0))
      | _ \<Rightarrow> ToNumber env v)"

text \<open>\<^verbatim>\<open>v > 0\<close>\<close>

definition greater_than_zero :: "env \<Rightarrow> jsval \<Rightarrow> js_error + bool" where
  "greater_than_zero env v =
     (case to_number env v of
        Inl e \<Rightarrow> Inl e
      | Inr None \<Rightarrow> Inr False
      | Inr (Some n) \<Rightarrow> Inr (0 < n))"

fun starts_with :: "string \<Rightarrow> string \<Rightarrow> bool" where
  "starts_with s [] = True"
| "starts_with [] (c # cs) = False"
| "starts_with (x # xs) (c # cs) = (x = c \<and> starts_with xs cs)"

text \<open>\<^verbatim>\<open>String.prototype.includes\<close>\<close>

fun str_includes :: "string \<Rightarrow> string \<Rightarrow> bool" where
  "str_includes [] sub = (sub = [])"
| "str_includes (x # xs) sub = (starts_with (x # xs) sub \<or> str_includes xs sub)"

text \<open>
  \<^verbatim>\<open>v.includes(x)\<close> for a string \<open>x\<close>: the substring test on a string, the membership test on
  an array; no other JSON value has a method of that name.  The handler calls it on
  \<^verbatim>\<open>audioUrl\<close> only, which is the receiver the TypeError names.
\<close>

definition call_includes :: "env \<Rightarrow> jsval \<Rightarrow> string \<Rightarrow> js_error + bool" where
  "call_includes env v x =
     (case v of
        JStr s \<Rightarrow> Inr (str_includes s x)
      | JArr xs \<Rightarrow> Inr (List.member xs (JStr x))
      | JUndefined \<Rightarrow> Inl (TypeError (TypeErrorText env (CannotReadProperty v ''includes'')))
      | JNull \<Rightarrow> Inl (TypeError (TypeErrorText env (CannotReadProperty v ''includes'')))
      | _ \<Rightarrow> Inl (TypeError (TypeErrorText env (NotAFunction v ''audioUrl.includes''))))"

text \<open>
  The case mapping of one character.  Only the letters A to Z are mapped: the handler looks
  for needles made of a dot, ASCII letters and digits in the lower-cased URL, and no
  character outside ASCII lower-cases to one of those.
\<close>

definition toLower :: "char \<Rightarrow> char" where
  "toLower c =
     (case map_of (zip ''ABCDEFGHIJKLMNOPQRSTUVWXYZ'' ''abcdefghijklmnopqrstuvwxyz'') c of
        Some l \<Rightarrow> l
      | None \<Rightarrow> c)"

text \<open>\<^verbatim>\<open>String.prototype.toLowerCase\<close>\<close>

definition toLowerCase :: "string \<Rightarrow> string" where
  "toLowerCase s = map toLower s"

text \<open>\<^verbatim>\<open>Array.prototype.join\<close> on strings\<close>

fun join :: "string list \<Rightarrow> string \<Rightarrow> string" where
  "join [] sep = []"
| "join [s] sep = s"
| "join (s # t # ts) sep = s @ sep @ join (t # ts) sep"

subsection \<open>Validation (lines 25--39 of both files)\<close>

text \<open>
  \<^verbatim>\<open>const { audioUrl, meetingName, participants, openaiApiKey } = req.body\<close>: destructuring
  \<^verbatim>\<open>undefined\<close> or \<^verbatim>\<open>null\<close> throws; any other value is read property by property.
\<close>

definition destructure :: "env \<Rightarrow> jsval \<Rightarrow> js_error + (jsval \<times> jsval \<times> jsval \<times> jsval)" where
  "destructure env body =
     (if nullish body then Inl (TypeError (TypeErrorText env (CannotDestructure body)))
      else Inr (read_prop body ''audioUrl'', read_prop body ''meetingName'',
                read_prop body ''participants'', read_prop body ''openaiApiKey''))"

definition cors_headers :: "(string \<times> string) list" where
  "cors_headers =
     [(''Access-Control-Allow-Origin'', ''*''),
      (''Access-Control-Allow-Methods'', ''POST, OPTIONS''),
      (''Access-Control-Allow-Headers'', ''Content-Type'')]"

text \<open>\<^verbatim>\<open>res.status(code).json(obj)\<close>, after the three \<^verbatim>\<open>res.setHeader\<close> calls of lines 12--14.\<close>

definition json_response :: "nat \<Rightarrow> jsval \<Rightarrow> response" where
  "json_response code obj = \<lparr>res_status = code, res_headers = cors_headers, res_body = Some obj\<rparr>"

subsection \<open>Step 1: the download\<close>

text \<open>Lines 49--57 of \<^verbatim>\<open>src/api/transcribe.js\<close>: the value of \<^verbatim>\<open>downloadUrl\<close>.\<close>

definition downloadUrl :: "env \<Rightarrow> jsval \<Rightarrow> js_error + jsval" where
  "downloadUrl env audioUrl =
     (case call_includes env audioUrl ''workdrive.zoho'' of
        Inl e \<Rightarrow> Inl e
      | Inr False \<Rightarrow> Inr audioUrl
      | Inr True \<Rightarrow>
          (case call_includes env audioUrl ''?'' of
             Inl e \<Rightarrow> Inl e
           | Inr has_query \<Rightarrow>
               (case to_string env audioUrl of
                  Inl e \<Rightarrow> Inl e
                | Inr s \<Rightarrow>
                    Inr (JStr (s @ (if has_query then ''&directDownload=true''
                                    else ''?directDownload=true''))))))"

text \<open>Lines 59--64 of \<^verbatim>\<open>src/api/transcribe.js\<close>: the fetch and the read of the body.\<close>

definition fetch_audio :: "env \<Rightarrow> jsval \<Rightarrow> call list \<times> (js_error + bytes)" where
  "fetch_audio env url =
     ([FetchCall url],
      (case fetch env url of
         Inl e \<Rightarrow> Inl e
       | Inr audioResponse \<Rightarrow>
           if \<not> ok audioResponse
           then Inl (Error (''Failed to download audio file: '' @ decimal (status audioResponse)
                            @ '' '' @ statusText audioResponse))
           else arrayBuffer audioResponse))"

text \<open>Lines 48--53 of \<^verbatim>\<open>src/unnamed/part_000\<close>: the same with the fixed message.\<close>

definition fetch_audio_part_000 :: "env \<Rightarrow> jsval \<Rightarrow> call list \<times> (js_error + bytes)" where
  "fetch_audio_part_000 env url =
     ([FetchCall url],
      (case fetch env url of
         Inl e \<Rightarrow> Inl e
       | Inr audioResponse \<Rightarrow>
           if \<not> ok audioResponse
           then Inl (Error ''Failed to download audio file'')
           else arrayBuffer audioResponse))"

text \<open>
  Lines 67--88 of \<^verbatim>\<open>src/api/transcribe.js\<close> on a string: the pair \<^verbatim>\<open>(mimeType, fileName)\<close>.
\<close>

definition detect_file_type :: "string \<Rightarrow> string \<times> string" where
  "detect_file_type audioUrl =
     (if str_includes (toLowerCase audioUrl) ''.mp3'' then (''audio/mpeg'', ''audio.mp3'')
      else if str_includes (toLowerCase audioUrl) ''.wav'' then (''audio/wav'', ''audio.wav'')
      else if str_includes (toLowerCase audioUrl) ''.m4a'' then (''audio/mp4'', ''audio.m4a'')
      else if str_includes (toLowerCase audioUrl) ''.mp4'' then (''audio/mp4'', ''audio.mp4'')
      else if str_includes (toLowerCase audioUrl) ''.ogg'' then (''audio/ogg'', ''audio.ogg'')
      else if str_includes (toLowerCase audioUrl) ''.webm'' then (''audio/webm'', ''audio.webm'')
      else (''audio/mp4'', ''audio.m4a''))"

text \<open>
  The same lines on any value: only a string has \<^verbatim>\<open>toLowerCase\<close>, so the first test throws
  on anything else.
\<close>

definition file_type_of :: "env \<Rightarrow> jsval \<Rightarrow> js_error + string \<times> string" where
  "file_type_of env audioUrl =
     (case audioUrl of
        JStr s \<Rightarrow> Inr (detect_file_type s)
      | JUndefined \<Rightarrow> Inl (TypeError (TypeErrorText env (CannotReadProperty audioUrl ''toLowerCase'')))
      | JNull \<Rightarrow> Inl (TypeError (TypeErrorText env (CannotReadProperty audioUrl ''toLowerCase'')))
      | _ \<Rightarrow> Inl (TypeError (TypeErrorText env (NotAFunction audioUrl ''audioUrl.toLowerCase''))))"

text \<open>
  Step 1 of \<^verbatim>\<open>src/api/transcribe.js\<close> (lines 47--91): the calls made and the \<^verbatim>\<open>File\<close> built, as
  \<open>(content, fileName, mimeType)\<close>.
\<close>

definition download_audio :: "env \<Rightarrow> jsval \<Rightarrow> call list \<times> (js_error + bytes \<times> string \<times> string)" where
  "download_audio env audioUrl =
     (case downloadUrl env audioUrl of
        Inl e \<Rightarrow> ([], Inl e)
      | Inr url \<Rightarrow>
          (case fetch_audio env url of
             (cs, Inl e) \<Rightarrow> (cs, Inl e)
           | (cs, Inr audioBuffer) \<Rightarrow>
               (case file_type_of env audioUrl of
                  Inl e \<Rightarrow> (cs, Inl e)
                | Inr (mimeType, fileName) \<Rightarrow> (cs, Inr (audioBuffer, fileName, mimeType)))))"

text \<open>Step 1 of \<^verbatim>\<open>src/unnamed/part_000\<close> (lines 47--55).\<close>

definition download_audio_part_000 ::
  "env \<Rightarrow> jsval \<Rightarrow> call list \<times> (js_error + bytes \<times> string \<times> string)" where
  "download_audio_part_000 env audioUrl =
     (case fetch_audio_part_000 env audioUrl of
        (cs, Inl e) \<Rightarrow> (cs, Inl e)
      | (cs, Inr audioBuffer) \<Rightarrow> (cs, Inr (audioBuffer, ''audio.mp3'', ''audio/mpeg'')))"

subsection \<open>Step 2: the transcription\<close>

text \<open>
  The call of the transcription service, and the read of \<^verbatim>\<open>transcription.segments\<close> in the
  log line after it, which throws when the service returned \<^verbatim>\<open>undefined\<close> or \<^verbatim>\<open>null\<close>.
\<close>

definition transcription_request :: "jsval \<Rightarrow> bytes \<times> string \<times> string \<Rightarrow> transcription_params" where
  "transcription_request openaiApiKey audioFile =
     (case audioFile of (audioBuffer, fileName, mimeType) \<Rightarrow>
        \<lparr>tp_apiKey = openaiApiKey, file_content = audioBuffer,
         file_name = fileName, file_type = mimeType,
         tp_model = ''whisper-1'', tp_response_format = ''verbose_json'',
         timestamp_granularities = [''segment'']\<rparr>)"

definition transcribe_audio ::
  "env \<Rightarrow> jsval \<Rightarrow> bytes \<times> string \<times> string \<Rightarrow> call list \<times> (js_error + jsval)" where
  "transcribe_audio env openaiApiKey audioFile =
     (let params = transcription_request openaiApiKey audioFile
      in ([TranscriptionCall params],
          (case transcriptions_create env params of
             Inl e \<Rightarrow> Inl e
           | Inr transcription \<Rightarrow>
               (case get_prop env transcription ''segments'' of
                  Inl e \<Rightarrow> Inl e
                | Inr segments \<Rightarrow> Inr transcription))))"

subsection \<open>Step 3: speakers and summary\<close>

text \<open>
  The callback of \<^verbatim>\<open>participants.map\<close>: one line of the numbered list, for the participant
  \<open>p\<close> at index \<open>i\<close>.  Reading a property of a \<^verbatim>\<open>null\<close> participant throws.
\<close>

definition participant_line :: "env \<Rightarrow> jsval \<Rightarrow> nat \<Rightarrow> js_error + string" where
  \<open>participant_line env p i =
     (case get_prop env p ''speaker'' of
        Inl e \<Rightarrow> Inl e
      | Inr speaker \<Rightarrow>
          (case to_string env speaker of
             Inl e \<Rightarrow> Inl e
           | Inr s1 \<Rightarrow>
               (case get_prop env p ''sampleQuote'' of
                  Inl e \<Rightarrow> Inl e
                | Inr sampleQuote \<Rightarrow>
                    (case to_string env (js_or sampleQuote (JStr ''Not provided'')) of
                       Inl e \<Rightarrow> Inl e
                     | Inr s2 \<Rightarrow>
                         Inr (decimal (i + 1) @ ''. "'' @ s1 @ ''" - Sample quote: "'' @ s2
                              @ ''"'')))))\<close>

fun participant_lines :: "env \<Rightarrow> jsval list \<Rightarrow> nat \<Rightarrow> js_error + string list" where
  "participant_lines env [] i = Inr []"
| "participant_lines env (p # ps) i =
     (case participant_line env p i of
        Inl e \<Rightarrow> Inl e
      | Inr l \<Rightarrow>
          (case participant_lines env ps (Suc i) of
             Inl e \<Rightarrow> Inl e
           | Inr ls \<Rightarrow> Inr (l # ls)))"

text \<open>
  \<^verbatim>\<open>participants.map(...).join('\n')\<close>: only an array has \<^verbatim>\<open>map\<close>.
\<close>

definition participantList :: "env \<Rightarrow> jsval \<Rightarrow> js_error + string" where
  "participantList env participants =
     (case participants of
        JArr ps \<Rightarrow>
          (case participant_lines env ps 0 of
             Inl e \<Rightarrow> Inl e
           | Inr ls \<Rightarrow> Inr (join ls ''\<newline>''))
      | JUndefined \<Rightarrow> Inl (TypeError (TypeErrorText env (CannotReadProperty participants ''map'')))
      | JNull \<Rightarrow> Inl (TypeError (TypeErrorText env (CannotReadProperty participants ''map'')))
      | _ \<Rightarrow> Inl (TypeError (TypeErrorText env (NotAFunction participants ''participants.map''))))"

text \<open>The template of lines 119--144, with its two substitutions.\<close>

definition matchingPrompt :: "string \<Rightarrow> string \<Rightarrow> string" where
  \<open>matchingPrompt participant_list text =
     join
      [''You are analyzing a meeting transcript to identify speakers.'',
       [],
       ''PARTICIPANTS IN THIS MEETING:'',
       participant_list,
       [],
       ''TRANSCRIPT:'',
       text,
       [],
       ''INSTRUCTIONS:'',
       ''1. Analyze the transcript and identify which parts were likely spoken by each participant'',
       ''2. Use the sample quotes (if provided) to help match speaking styles'',
       ''3. Rewrite the transcript with speaker labels'',
       [],
       ''OUTPUT FORMAT:'',
       ''Return a JSON object with:'',
       ''{'',
       ''  "transcript": "The full transcript with speaker labels like 'Speaker Name: text...'",'',
       ''  "speakers": ['',
       ''    {'',
       ''      "name": "Speaker Name",'',
       ''      "wordCount": 123,'',
       ''      "summary": "Brief 2-3 sentence summary of what they said"'',
       ''    }'',
       ''  ],'',
       ''  "meetingSummary": "Overall 3-4 sentence summary of the meeting"'',
       ''}'']
      ''\<newline>''\<close>

text \<open>The argument of the attribution call (lines 146--154).\<close>

definition matching_request :: "jsval \<Rightarrow> string \<Rightarrow> chat_params" where
  "matching_request openaiApiKey prompt =
     \<lparr>cp_apiKey = openaiApiKey, cp_model = ''gpt-4o'',
      messages =
        [(''system'', JStr ''You are an expert at analyzing meeting transcripts and identifying speakers. Always respond with valid JSON.''),
         (''user'', JStr prompt)],
      json_object = True, max_tokens = 4000\<rparr>"

text \<open>The argument of the summary call (lines 169--176).\<close>

definition summary_request :: "jsval \<Rightarrow> jsval \<Rightarrow> chat_params" where
  "summary_request openaiApiKey text =
     \<lparr>cp_apiKey = openaiApiKey, cp_model = ''gpt-4o'',
      messages =
        [(''system'', JStr ''Summarize this meeting transcript in 3-4 sentences.''),
         (''user'', text)],
      json_object = False, max_tokens = 500\<rparr>"

text \<open>\<^verbatim>\<open>response.choices[0].message.content\<close>\<close>

definition first_content :: "env \<Rightarrow> jsval \<Rightarrow> js_error + jsval" where
  "first_content env response =
     (case get_prop env response ''choices'' of
        Inl e \<Rightarrow> Inl e
      | Inr choices \<Rightarrow>
          (case get_index env choices 0 of
             Inl e \<Rightarrow> Inl e
           | Inr choice \<Rightarrow>
               (case get_prop env choice ''message'' of
                  Inl e \<Rightarrow> Inl e
                | Inr msg \<Rightarrow> get_prop env msg ''content'')))"

text \<open>\<^verbatim>\<open>JSON.parse(v)\<close> converts its argument to a string first.\<close>

definition json_parse :: "env \<Rightarrow> jsval \<Rightarrow> js_error + jsval" where
  "json_parse env v =
     (case to_string env v of
        Inl e \<Rightarrow> Inl e
      | Inr s \<Rightarrow> JSON_parse env s)"

text \<open>
  The inner \<^verbatim>\<open>try\<close>/\<^verbatim>\<open>catch\<close> (lines 156--164): the values of \<^verbatim>\<open>matchedTranscript\<close>,
  \<^verbatim>\<open>speakerSummaries\<close> and \<^verbatim>\<open>meetingSummary\<close> after it.  The three assignments run in order, and
  the \<^verbatim>\<open>catch\<close> resets \<^verbatim>\<open>matchedTranscript\<close> only.
\<close>

definition parse_analysis :: "env \<Rightarrow> jsval \<Rightarrow> jsval \<Rightarrow> jsval \<times> jsval \<times> jsval" where
  "parse_analysis env gptResponse text =
     (case first_content env gptResponse of
        Inl parseError \<Rightarrow> (text, JArr [], JStr [])
      | Inr content \<Rightarrow>
          (case json_parse env content of
             Inl parseError \<Rightarrow> (text, JArr [], JStr [])
           | Inr analysis \<Rightarrow>
               (case get_prop env analysis ''transcript'' of
                  Inl parseError \<Rightarrow> (text, JArr [], JStr [])
                | Inr transcript \<Rightarrow>
                    (case get_prop env analysis ''speakers'' of
                       Inl parseError \<Rightarrow> (text, JArr [], JStr [])
                     | Inr speakers \<Rightarrow>
                         (case get_prop env analysis ''meetingSummary'' of
                            Inl parseError \<Rightarrow> (text, js_or speakers (JArr []), JStr [])
                          | Inr summary \<Rightarrow>
                              (js_or transcript text, js_or speakers (JArr []),
                               js_or summary (JStr [])))))))"

text \<open>The test \<^verbatim>\<open>participants && participants.length > 0\<close> of line 112.\<close>

definition has_participants :: "env \<Rightarrow> jsval \<Rightarrow> js_error + bool" where
  "has_participants env participants =
     (if \<not> truthy participants then Inr False
      else (case get_prop env participants ''length'' of
              Inl e \<Rightarrow> Inl e
            | Inr n \<Rightarrow> greater_than_zero env n))"

text \<open>
  Lines 108--179, where \<open>text\<close> is \<^verbatim>\<open>transcription.text\<close>: the calls made and the triple
  \<^verbatim>\<open>(matchedTranscript, speakerSummaries, meetingSummary)\<close>.
\<close>

definition match_speakers ::
  "env \<Rightarrow> jsval \<Rightarrow> jsval \<Rightarrow> jsval \<Rightarrow> call list \<times> (js_error + jsval \<times> jsval \<times> jsval)" where
  "match_speakers env openaiApiKey participants text =
     (case has_participants env participants of
        Inl e \<Rightarrow> ([], Inl e)
      | Inr True \<Rightarrow>
          (case participantList env participants of
             Inl e \<Rightarrow> ([], Inl e)
           | Inr pl \<Rightarrow>
               (case to_string env text of
                  Inl e \<Rightarrow> ([], Inl e)
                | Inr t \<Rightarrow>
                    (let params = matching_request openaiApiKey (matchingPrompt pl t)
                     in ([ChatCall params],
                         (case chat_completions_create env params of
                            Inl e \<Rightarrow> Inl e
                          | Inr gptResponse \<Rightarrow> Inr (parse_analysis env gptResponse text))))))
      | Inr False \<Rightarrow>
          (let params = summary_request openaiApiKey text
           in ([ChatCall params],
               (case chat_completions_create env params of
                  Inl e \<Rightarrow> Inl e
                | Inr summaryResponse \<Rightarrow>
                    (case first_content env summaryResponse of
                       Inl e \<Rightarrow> Inl e
                     | Inr content \<Rightarrow> Inr (text, JArr [], content))))))"

subsection \<open>The result and the handler\<close>

text \<open>
  The object of lines 182--192.  The transcription was read without a throw in the log line
  of step 2, so it is neither \<^verbatim>\<open>undefined\<close> nor \<^verbatim>\<open>null\<close> and its properties are read directly.
\<close>

definition result :: "jsval \<Rightarrow> jsval \<Rightarrow> jsval \<times> jsval \<times> jsval \<Rightarrow> jsval" where
  "result meetingName transcription matched =
     (case matched of (matchedTranscript, speakerSummaries, meetingSummary) \<Rightarrow>
        JObj
         [(''success'', JBool True),
          (''meetingName'', js_or meetingName (JStr ''Untitled Meeting'')),
          (''transcript'', matchedTranscript),
          (''rawTranscript'', read_prop transcription ''text''),
          (''segments'', js_or (read_prop transcription ''segments'') (JArr [])),
          (''speakers'', speakerSummaries),
          (''meetingSummary'', meetingSummary),
          (''duration'', js_or (read_prop transcription ''duration'') (JNum 0)),
          (''language'', js_or (read_prop transcription ''language'') (JStr ''en''))])"

text \<open>Steps 2 and 3 and the success response; the same lines in both files.\<close>

definition process_audio ::
  "env \<Rightarrow> jsval \<Rightarrow> jsval \<Rightarrow> jsval \<Rightarrow> bytes \<times> string \<times> string
     \<Rightarrow> call list \<times> (js_error + response)" where
  "process_audio env meetingName participants openaiApiKey audioFile =
     (case transcribe_audio env openaiApiKey audioFile of
        (cs2, Inl e) \<Rightarrow> (cs2, Inl e)
      | (cs2, Inr transcription) \<Rightarrow>
          (case match_speakers env openaiApiKey participants (read_prop transcription ''text'') of
             (cs3, Inl e) \<Rightarrow> (cs2 @ cs3, Inl e)
           | (cs3, Inr matched) \<Rightarrow>
               (cs2 @ cs3, Inr (json_response 200 (result meetingName transcription matched)))))"

text \<open>
  The body of the outer \<^verbatim>\<open>try\<close>, with the download step as a parameter: it returns the response
  it sent, or the exception that left it.
\<close>

definition try_body ::
  "(env \<Rightarrow> jsval \<Rightarrow> call list \<times> (js_error + bytes \<times> string \<times> string))
     \<Rightarrow> env \<Rightarrow> jsval \<Rightarrow> call list \<times> (js_error + response)" where
  "try_body download env body =
     (case destructure env body of
        Inl e \<Rightarrow> ([], Inl e)
      | Inr (audioUrl, meetingName, participants, openaiApiKey) \<Rightarrow>
          if \<not> truthy audioUrl
          then ([], Inr (json_response 400 (JObj [(''error'', JStr ''audioUrl is required'')])))
          else if \<not> truthy openaiApiKey
          then ([], Inr (json_response 400 (JObj [(''error'', JStr ''openaiApiKey is required'')])))
          else
            (case download env audioUrl of
               (cs1, Inl e) \<Rightarrow> (cs1, Inl e)
             | (cs1, Inr audioFile) \<Rightarrow>
                 (case process_audio env meetingName participants openaiApiKey audioFile of
                    (cs, r) \<Rightarrow> (cs1 @ cs, r))))"

text \<open>
  The whole function: the method dispatch of lines 16--22, the \<^verbatim>\<open>try\<close> and the outer
  \<^verbatim>\<open>catch\<close> of lines 197--203.
\<close>

definition handle ::
  "(env \<Rightarrow> jsval \<Rightarrow> call list \<times> (js_error + bytes \<times> string \<times> string))
     \<Rightarrow> env \<Rightarrow> request \<Rightarrow> response \<times> call list" where
  "handle download env req =
     (if req_method req = ''OPTIONS''
      then (\<lparr>res_status = 200, res_headers = cors_headers, res_body = None\<rparr>, [])
      else if req_method req \<noteq> ''POST''
      then (json_response 405 (JObj [(''error'', JStr ''Method not allowed'')]), [])
      else
        (case try_body download env (req_body req) of
           (cs, Inr res) \<Rightarrow> (res, cs)
         | (cs, Inl error) \<Rightarrow>
             (json_response 500
                (JObj [(''error'', JStr ''Transcription failed''),
                       (''message'', JStr (message error))]),
              cs)))"

text \<open>\<^verbatim>\<open>src/api/transcribe.js\<close>\<close>

definition handler :: "env \<Rightarrow> request \<Rightarrow> response \<times> call list" where
  "handler = handle download_audio"

text \<open>\<^verbatim>\<open>src/unnamed/part_000\<close>\<close>

definition handler_part_000 :: "env \<Rightarrow> request \<Rightarrow> response \<times> call list" where
  "handler_part_000 = handle download_audio_part_000"

subsection \<open>Reading a trace and a response\<close>

text \<open>The URLs fetched and the files sent for transcription, in the order of the calls.\<close>

fun fetched :: "call list \<Rightarrow> jsval list" where
  "fetched [] = []"
| "fetched (FetchCall url # cs) = url # fetched cs"
| "fetched (c # cs) = fetched cs"

fun sent_files :: "call list \<Rightarrow> (string \<times> string) list" where
  "sent_files [] = []"
| "sent_files (TranscriptionCall params # cs) = (file_type params, file_name params) # sent_files cs"
| "sent_files (c # cs) = sent_files cs"

text \<open>The two error responses of the handler.\<close>

definition bad_request :: "string \<Rightarrow> response \<times> call list" where
  "bad_request msg = (json_response 400 (JObj [(''error'', JStr msg)]), [])"

definition transcription_failed :: "string \<Rightarrow> response" where
  "transcription_failed msg =
     json_response 500 (JObj [(''error'', JStr ''Transcription failed''), (''message'', JStr msg)])"

text \<open>A field of the object sent with \<^verbatim>\<open>res.json\<close>.\<close>

definition res_field :: "response \<Rightarrow> string \<Rightarrow> jsval option" where
  "res_field res k = (case res_body res of Some (JObj props) \<Rightarrow> map_of props k | _ \<Rightarrow> None)"

text \<open>
  What the read of \<^verbatim>\<open>analysis.k\<close> contributes inside the inner \<^verbatim>\<open>try\<close>: on \<^verbatim>\<open>null\<close> the read
  throws and the \<^verbatim>\<open>catch\<close> leaves the default in place, as for a property that is not there.
\<close>

definition analysis_prop :: "jsval \<Rightarrow> string \<Rightarrow> jsval" where
  "analysis_prop analysis k = (if nullish analysis then JUndefined else read_prop analysis k)"

subsection \<open>The file-type rule as the specification words it\<close>

text \<open>
  The specification describes the detection as a table of extensions in a fixed precedence
  order, each tested as a case-insensitive substring of the URL, the first match giving the
  MIME type and the file name, with \<^verbatim>\<open>audio/mp4\<close> and \<^verbatim>\<open>audio.m4a\<close> when none matches.
\<close>

definition extension_table :: "(string \<times> string \<times> string) list" where
  "extension_table =
     [(''.mp3'', ''audio/mpeg'', ''audio.mp3''),
      (''.wav'', ''audio/wav'', ''audio.wav''),
      (''.m4a'', ''audio/mp4'', ''audio.m4a''),
      (''.mp4'', ''audio/mp4'', ''audio.mp4''),
      (''.ogg'', ''audio/ogg'', ''audio.ogg''),
      (''.webm'', ''audio/webm'', ''audio.webm'')]"

definition occurs_ignoring_case :: "string \<Rightarrow> string \<Rightarrow> bool" where
  "occurs_ignoring_case ext url =
     (\<exists>p m q. url = p @ m @ q \<and> toLowerCase m = toLowerCase ext)"

definition inferred_type :: "string \<Rightarrow> string \<times> string" where
  "inferred_type url =
     (case find (\<lambda>(ext, mime, name). occurs_ignoring_case ext url) extension_table of
        Some (ext, mime, name) \<Rightarrow> (mime, name)
      | None \<Rightarrow> (''audio/mp4'', ''audio.m4a''))"

subsection \<open>Scenarios\<close>

text \<open>
  Concrete worlds for the examples: every collaborator answers with a fixed value,
  \<^verbatim>\<open>JSON.parse\<close> knows the texts listed in \<open>parses\<close> and rejects any other, the TypeError texts
  follow the wording of V8, and a conversion that no example reaches answers with an
  exception.
\<close>

definition v8_text :: "type_error \<Rightarrow> string" where
  "v8_text t =
     (case t of
        CannotDestructure v \<Rightarrow>
          ''Cannot destructure property 'audioUrl' of 'req.body' as it is ''
          @ (if v = JNull then ''null'' else ''undefined'') @ ''.''
      | CannotReadProperty v k \<Rightarrow>
          ''Cannot read properties of '' @ (if v = JNull then ''null'' else ''undefined'')
          @ '' (reading '' @ [CHR 0x27] @ k @ [CHR 0x27] @ '')''
      | NotAFunction v k \<Rightarrow> k @ '' is not a function'')"

definition scenario :: "fetch_response \<Rightarrow> jsval \<Rightarrow> jsval \<Rightarrow> (string \<times> jsval) list \<Rightarrow> env" where
  "scenario audioResponse transcription completion parses =
     \<lparr>fetch = (\<lambda>url. Inr audioResponse),
      transcriptions_create = (\<lambda>params. Inr transcription),
      chat_completions_create = (\<lambda>params. Inr completion),
      JSON_parse = (\<lambda>s. case map_of parses s of
                            Some v \<Rightarrow> Inr v
                          | None \<Rightarrow> Inl (SyntaxError ''Unexpected token'')),
      ToString = (\<lambda>v. Inl (Error ''ToString is not part of the scenario'')),
      ToNumber = (\<lambda>v. Inl (Error ''ToNumber is not part of the scenario'')),
      TypeErrorText = v8_text\<rparr>"

definition audio_ok :: fetch_response where
  "audio_ok = \<lparr>ok = True, status = 200, statusText = ''OK'', arrayBuffer = Inr [73, 68, 51]\<rparr>"

definition audio_404 :: fetch_response where
  "audio_404 = \<lparr>ok = False, status = 404, statusText = ''Not Found'', arrayBuffer = Inr []\<rparr>"

text \<open>The transcription of the specification's end-to-end scenario.\<close>

definition hello_world :: jsval where
  "hello_world =
     JObj [(''text'', JStr ''hello world''), (''segments'', JArr []),
           (''duration'', JNum 5), (''language'', JStr ''en'')]"

text \<open>A chat completion with one choice.\<close>

definition completion :: "jsval \<Rightarrow> jsval" where
  "completion content =
     JObj [(''choices'',
            JArr [JObj [(''message'',
                         JObj [(''role'', JStr ''assistant''), (''content'', content)])]])]"

definition post :: "jsval \<Rightarrow> request" where
  "post body = \<lparr>req_method = ''POST'', req_body = body\<rparr>"

text \<open>
  The requests and worlds of the examples.  The first pair is the end-to-end scenario of the
  specification: a request for \<^verbatim>\<open>https://host/f.mp3\<close> with the key \<^verbatim>\<open>k\<close> and no participants,
  in a world whose transcription is \<open>hello_world\<close>.
\<close>

definition env_hello :: env where
  "env_hello = scenario audio_ok hello_world (completion (JStr ''They said hello.'')) []"

definition req_mp3 :: request where
  "req_mp3 = post (JObj [(''audioUrl'', JStr ''https://host/f.mp3''), (''openaiApiKey'', JStr ''k'')])"

definition env_404 :: env where
  "env_404 = scenario audio_404 hello_world (completion (JStr ''They said hello.'')) []"

definition req_wav :: request where
  "req_wav = post (JObj [(''audioUrl'', JStr ''https://host/memo.wav''),
                       (''openaiApiKey'', JStr ''k'')])"

definition req_two_extensions :: request where
  "req_two_extensions = post (JObj [(''audioUrl'', JStr ''https://host/Talk.WAV?alt=x.mp3''),
                       (''openaiApiKey'', JStr ''k'')])"

definition req_workdrive :: request where
  "req_workdrive = post (JObj [(''audioUrl'', JStr ''https://workdrive.zoho.com/file/a1.m4a''),
                             (''openaiApiKey'', JStr ''k'')])"

definition req_workdrive_query :: request where
  "req_workdrive_query =
     post (JObj [(''audioUrl'', JStr ''https://workdrive.zoho.com/file?id=a1''),
                 (''openaiApiKey'', JStr ''k'')])"

text \<open>A request with two participants, and the numbered list the handler renders for them.\<close>

definition two_participants :: jsval where
  "two_participants =
     JArr [JObj [(''speaker'', JStr ''Ana''), (''sampleQuote'', JStr ''hello everyone'')],
           JObj [(''speaker'', JStr ''Ben'')]]"

definition req_participants :: request where
  "req_participants = post (JObj [(''audioUrl'', JStr ''https://host/f.mp3''),
                    (''meetingName'', JStr ''Standup''),
                    (''participants'', two_participants),
                    (''openaiApiKey'', JStr ''k'')])"

definition two_lines :: string where
  \<open>two_lines = ''1. "Ana" - Sample quote: "hello everyone"\<newline>2. "Ben" - Sample quote: "Not provided"''\<close>

text \<open>Worlds whose language model answers with prose, with a full analysis, with a blank one.\<close>

definition env_refusal :: env where
  "env_refusal = scenario audio_ok hello_world (completion (JStr ''Sorry, I cannot do that.'')) []"

definition labelled_text :: string where
  \<open>labelled_text = ''{"transcript":"Ana: hello world","speakers":[{"name":"Ana","wordCount":2,"summary":"Greets."}],"meetingSummary":"A greeting."}''\<close>

definition labelled :: jsval where
  "labelled =
     JObj [(''transcript'', JStr ''Ana: hello world''),
           (''speakers'', JArr [JObj [(''name'', JStr ''Ana''), (''wordCount'', JNum 2),
                                      (''summary'', JStr ''Greets.'')]]),
           (''meetingSummary'', JStr ''A greeting.'')]"

definition env_labelled :: env where
  "env_labelled = scenario audio_ok hello_world (completion (JStr labelled_text))
                  [(labelled_text, labelled)]"

definition blank_text :: string where
  \<open>blank_text = ''{"transcript":"","speakers":null,"meetingSummary":"A greeting."}''\<close>

definition blank :: jsval where
  "blank =
     JObj [(''transcript'', JStr []), (''speakers'', JNull),
           (''meetingSummary'', JStr ''A greeting.'')]"

definition env_blank :: env where
  "env_blank = scenario audio_ok hello_world (completion (JStr blank_text)) [(blank_text, blank)]"

text \<open>Worlds whose transcription has an empty \<^verbatim>\<open>language\<close>, or nothing but a \<^verbatim>\<open>text\<close>.\<close>

definition no_language :: jsval where
  "no_language =
     JObj [(''text'', JStr ''hi''),
           (''segments'', JArr [JObj [(''start'', JNum 0), (''end'', JNum 2), (''text'', JStr ''hi'')]]),
           (''duration'', JNum 2),
           (''language'', JStr [])]"

definition env_no_language :: env where
  "env_no_language = scenario audio_ok no_language (completion (JStr ''A greeting.'')) []"

definition text_only :: jsval where
  "text_only = JObj [(''text'', JStr ''hi'')]"

definition env_text_only :: env where
  "env_text_only = scenario audio_ok text_only (completion (JStr ''A greeting.'')) []"

section \<open>Properties\<close>

subsection \<open>Strings\<close>

lemma starts_with_iff: "starts_with s sub \<longleftrightarrow> (\<exists>q. s = sub @ q)"
  by (induction s sub rule: starts_with.induct) auto

lemma str_includes_iff: "str_includes s sub \<longleftrightarrow> (\<exists>p q. s = p @ sub @ q)"
proof (induction s)
  case Nil
  then show ?case by auto
next
  case (Cons x xs)
  show ?case
  proof
    assume "str_includes (x # xs) sub"
    then consider "starts_with (x # xs) sub" | "str_includes xs sub" by auto
    then show "\<exists>p q. x # xs = p @ sub @ q"
    proof cases
      case 1
      then obtain q where "x # xs = sub @ q" by (auto simp: starts_with_iff)
      then have "x # xs = [] @ sub @ q" by simp
      then show ?thesis by blast
    next
      case 2
      then obtain p q where "xs = p @ sub @ q" using Cons.IH by blast
      then have "x # xs = (x # p) @ sub @ q" by simp
      then show ?thesis by blast
    qed
  next
    assume "\<exists>p q. x # xs = p @ sub @ q"
    then obtain p q where pq: "x # xs = p @ sub @ q" by blast
    show "str_includes (x # xs) sub"
    proof (cases p)
      case Nil
      with pq have "starts_with (x # xs) sub" by (auto simp: starts_with_iff)
      then show ?thesis by simp
    next
      case (Cons y ys)
      with pq have "xs = ys @ sub @ q" by simp
      then have "str_includes xs sub" using Cons.IH by blast
      then show ?thesis by simp
    qed
  qed
qed

lemma toLowerCase_append: "toLowerCase (a @ b) = toLowerCase a @ toLowerCase b"
  by (simp add: toLowerCase_def)

lemma toLowerCase_split:
  "toLowerCase s = a @ b \<Longrightarrow> \<exists>u v. s = u @ v \<and> toLowerCase u = a \<and> toLowerCase v = b"
  unfolding toLowerCase_def by (auto simp: map_eq_append_conv)

lemma occurs_ignoring_case_iff:
  "occurs_ignoring_case ext url \<longleftrightarrow> str_includes (toLowerCase url) (toLowerCase ext)"
proof
  assume "occurs_ignoring_case ext url"
  then obtain p m q where "url = p @ m @ q" and "toLowerCase m = toLowerCase ext"
    by (auto simp: occurs_ignoring_case_def)
  then have "toLowerCase url = toLowerCase p @ toLowerCase ext @ toLowerCase q"
    by (simp add: toLowerCase_append)
  then show "str_includes (toLowerCase url) (toLowerCase ext)"
    unfolding str_includes_iff by blast
next
  assume "str_includes (toLowerCase url) (toLowerCase ext)"
  then obtain a b where ab: "toLowerCase url = a @ toLowerCase ext @ b"
    unfolding str_includes_iff by blast
  then obtain p r where pr: "url = p @ r" "toLowerCase p = a" "toLowerCase r = toLowerCase ext @ b"
    using toLowerCase_split by blast
  then obtain m q where "r = m @ q" "toLowerCase m = toLowerCase ext" "toLowerCase q = b"
    using toLowerCase_split by blast
  with pr show "occurs_ignoring_case ext url"
    unfolding occurs_ignoring_case_def by blast
qed

lemma detect_file_type_refines: "detect_file_type url = inferred_type url"
  by (simp add: detect_file_type_def inferred_type_def extension_table_def
      occurs_ignoring_case_iff toLowerCase_def toLower_def)


subsection \<open>The calls of each step\<close>

lemma match_speakers_calls:
  "match_speakers env key participants text = (cs, r) \<Longrightarrow> \<forall>c \<in> set cs. \<exists>p. c = ChatCall p"
  by (auto simp: match_speakers_def Let_def split: sum.splits bool.splits)

lemma process_audio_calls:
  assumes "process_audio env meetingName participants key audioFile = (cs, r)"
  shows "\<exists>cs3. cs = TranscriptionCall (transcription_request key audioFile) # cs3
              \<and> (\<forall>c \<in> set cs3. \<exists>p. c = ChatCall p)"
  using assms
  by (auto simp: process_audio_def transcribe_audio_def Let_def
      split: sum.splits prod.splits dest: match_speakers_calls)

lemma download_audio_calls:
  "\<forall>u. \<forall>c \<in> set (fst (download_audio env u)). \<exists>v. c = FetchCall v"
  by (auto simp: download_audio_def fetch_audio_def split: sum.splits prod.splits)

lemma download_audio_part_000_calls:
  "\<forall>u. \<forall>c \<in> set (fst (download_audio_part_000 env u)). \<exists>v. c = FetchCall v"
  by (auto simp: download_audio_part_000_def fetch_audio_part_000_def split: sum.splits prod.splits)

lemma download_success_calls:
  "download_audio env u = (cs, Inr f) \<Longrightarrow> \<exists>url. cs = [FetchCall url]"
  "download_audio_part_000 env u = (cs, Inr f) \<Longrightarrow> \<exists>url. cs = [FetchCall url]"
  by (auto simp: download_audio_def fetch_audio_def download_audio_part_000_def
      fetch_audio_part_000_def split: sum.splits prod.splits)

lemma download_audio_file:
  "download_audio env (JStr url) = (cs, Inr (content, fileName, mimeType))
     \<Longrightarrow> (mimeType, fileName) = detect_file_type url"
  by (auto simp: download_audio_def file_type_of_def split: sum.splits prod.splits)

lemma download_audio_part_000_file:
  "download_audio_part_000 env audioUrl = (cs, Inr (content, fileName, mimeType))
     \<Longrightarrow> mimeType = ''audio/mpeg'' \<and> fileName = ''audio.mp3''"
  by (auto simp: download_audio_part_000_def split: sum.splits prod.splits)


subsection \<open>The handler by cases\<close>

lemma transcribe_audio_Inr:
  assumes "transcribe_audio env key audioFile = (cs, Inr transcription)"
  shows "cs = [TranscriptionCall (transcription_request key audioFile)]
       \<and> transcriptions_create env (transcription_request key audioFile) = Inr transcription
       \<and> \<not> nullish transcription"
  using assms
  by (auto simp: transcribe_audio_def Let_def get_prop_def split: sum.splits if_splits)


lemma handle_early:
  assumes "req_method req = ''POST''"
  shows "nullish (req_body req) \<Longrightarrow>
           handle download env req
             = (transcription_failed (TypeErrorText env (CannotDestructure (req_body req))), [])"
    and "\<not> nullish (req_body req) \<Longrightarrow> \<not> truthy (read_prop (req_body req) ''audioUrl'') \<Longrightarrow>
           handle download env req = bad_request ''audioUrl is required''"
    and "\<not> nullish (req_body req) \<Longrightarrow> truthy (read_prop (req_body req) ''audioUrl'') \<Longrightarrow>
         \<not> truthy (read_prop (req_body req) ''openaiApiKey'') \<Longrightarrow>
           handle download env req = bad_request ''openaiApiKey is required''"
  using assms
  by (simp_all add: handle_def try_body_def destructure_def transcription_failed_def
      bad_request_def)

lemma handle_valid:
  assumes "req_method req = ''POST''"
    and "\<not> nullish (req_body req)"
    and "truthy (read_prop (req_body req) ''audioUrl'')"
    and "truthy (read_prop (req_body req) ''openaiApiKey'')"
  shows "handle download env req =
     (case download env (read_prop (req_body req) ''audioUrl'') of
        (cs1, Inl e) \<Rightarrow> (transcription_failed (message e), cs1)
      | (cs1, Inr audioFile) \<Rightarrow>
          (case transcribe_audio env (read_prop (req_body req) ''openaiApiKey'') audioFile of
             (cs2, Inl e) \<Rightarrow> (transcription_failed (message e), cs1 @ cs2)
           | (cs2, Inr transcription) \<Rightarrow>
               (case match_speakers env (read_prop (req_body req) ''openaiApiKey'')
                       (read_prop (req_body req) ''participants'')
                       (read_prop transcription ''text'') of
                  (cs3, Inl e) \<Rightarrow> (transcription_failed (message e), cs1 @ cs2 @ cs3)
                | (cs3, Inr matched) \<Rightarrow>
                    (json_response 200
                       (result (read_prop (req_body req) ''meetingName'') transcription matched),
                     cs1 @ cs2 @ cs3))))"
  using assms
  by (simp add: handle_def try_body_def destructure_def process_audio_def
      transcription_failed_def split: sum.splits prod.splits)


lemma transcribe_audio_calls:
  "transcribe_audio env key audioFile = (cs, r)
     \<Longrightarrow> cs = [TranscriptionCall (transcription_request key audioFile)]"
  by (auto simp: transcribe_audio_def Let_def)

lemma handle_success:
  assumes "req_method req = ''POST''"
    and "handle download env req = (res, calls)"
    and "res_status res = 200"
  shows "\<exists>cs1 audioFile cs2 transcription cs3 matched.
           \<not> nullish (req_body req)
         \<and> truthy (read_prop (req_body req) ''audioUrl'')
         \<and> truthy (read_prop (req_body req) ''openaiApiKey'')
         \<and> download env (read_prop (req_body req) ''audioUrl'') = (cs1, Inr audioFile)
         \<and> transcribe_audio env (read_prop (req_body req) ''openaiApiKey'') audioFile
              = (cs2, Inr transcription)
         \<and> match_speakers env (read_prop (req_body req) ''openaiApiKey'')
              (read_prop (req_body req) ''participants'') (read_prop transcription ''text'')
              = (cs3, Inr matched)
         \<and> res = json_response 200
                   (result (read_prop (req_body req) ''meetingName'') transcription matched)
         \<and> calls = cs1 @ cs2 @ cs3"
proof -
  have nn: "\<not> nullish (req_body req)"
    using assms handle_early(1) [OF assms(1), of download env]
    by (auto simp: transcription_failed_def json_response_def)
  have au: "truthy (read_prop (req_body req) ''audioUrl'')"
  proof (rule ccontr)
    assume "\<not> ?thesis"
    from handle_early(2) [OF assms(1) nn this, of download env] assms(2,3)
    show False by (auto simp: bad_request_def json_response_def)
  qed
  have key: "truthy (read_prop (req_body req) ''openaiApiKey'')"
  proof (rule ccontr)
    assume "\<not> ?thesis"
    from handle_early(3) [OF assms(1) nn au this, of download env] assms(2,3)
    show False by (auto simp: bad_request_def json_response_def)
  qed
  show ?thesis
    using handle_valid [OF assms(1) nn au key, of download env] assms(2,3) nn au key
    by (auto simp: transcription_failed_def json_response_def split: prod.splits sum.splits)
qed

lemma handle_chat_call:
  assumes "req_method req = ''POST''"
    and "handle download env req = (res, calls)"
    and "ChatCall params \<in> set calls"
    and dl: "\<forall>u. \<forall>c \<in> set (fst (download env u)). \<exists>v. c = FetchCall v"
  shows "\<exists>cs1 audioFile cs2 transcription cs3 r.
           download env (read_prop (req_body req) ''audioUrl'') = (cs1, Inr audioFile)
         \<and> transcribe_audio env (read_prop (req_body req) ''openaiApiKey'') audioFile
              = (cs2, Inr transcription)
         \<and> match_speakers env (read_prop (req_body req) ''openaiApiKey'')
              (read_prop (req_body req) ''participants'') (read_prop transcription ''text'')
              = (cs3, r)
         \<and> ChatCall params \<in> set cs3
         \<and> res = (case r of
                    Inl e \<Rightarrow> transcription_failed (message e)
                  | Inr matched \<Rightarrow>
                      json_response 200
                        (result (read_prop (req_body req) ''meetingName'') transcription matched))"
proof -
  have nn: "\<not> nullish (req_body req)"
    using assms(2,3) handle_early(1) [OF assms(1), of download env] by auto
  have au: "truthy (read_prop (req_body req) ''audioUrl'')"
  proof (rule ccontr)
    assume "\<not> ?thesis"
    from handle_early(2) [OF assms(1) nn this, of download env] assms(2,3)
    show False by (auto simp: bad_request_def)
  qed
  have key: "truthy (read_prop (req_body req) ''openaiApiKey'')"
  proof (rule ccontr)
    assume "\<not> ?thesis"
    from handle_early(3) [OF assms(1) nn au this, of download env] assms(2,3)
    show False by (auto simp: bad_request_def)
  qed
  obtain cs1 d where d: "download env (read_prop (req_body req) ''audioUrl'') = (cs1, d)"
    by (cases "download env (read_prop (req_body req) ''audioUrl'')")
  have cs1: "ChatCall params \<notin> set cs1"
    using dl [THEN spec, of "read_prop (req_body req) ''audioUrl''"] d by auto
  show ?thesis
  proof (cases d)
    case (Inl e)
    with handle_valid [OF assms(1) nn au key, of download env] d assms(2,3) cs1
    show ?thesis by auto
  next
    case (Inr audioFile)
    obtain cs2 t where t: "transcribe_audio env (read_prop (req_body req) ''openaiApiKey'') audioFile
        = (cs2, t)"
      by (cases "transcribe_audio env (read_prop (req_body req) ''openaiApiKey'') audioFile")
    have cs2: "ChatCall params \<notin> set cs2" using transcribe_audio_calls [OF t] by auto
    show ?thesis
    proof (cases t)
      case (Inl e)
      with handle_valid [OF assms(1) nn au key, of download env] d Inr t assms(2,3) cs1 cs2
      show ?thesis by auto
    next
      case tr: (Inr transcription)
      obtain cs3 r where m: "match_speakers env (read_prop (req_body req) ''openaiApiKey'')
              (read_prop (req_body req) ''participants'') (read_prop transcription ''text'')
              = (cs3, r)"
        by (cases "match_speakers env (read_prop (req_body req) ''openaiApiKey'')
              (read_prop (req_body req) ''participants'') (read_prop transcription ''text'')")
      show ?thesis
        using handle_valid [OF assms(1) nn au key, of download env] d Inr t tr m assms(2,3) cs1 cs2
        by (cases r) auto
    qed
  qed
qed

subsection \<open>Step 3 by cases\<close>


lemma has_participants_list: "ps \<noteq> [] \<Longrightarrow> has_participants env (JArr ps) = Inr True"
  by (auto simp: has_participants_def get_prop_def nullish_def greater_than_zero_def
      to_number_def)


lemma match_speakers_list:
  assumes "ps \<noteq> []"
    and "match_speakers env key (JArr ps) text = (cs, r)"
    and "ChatCall params \<in> set cs"
    and "chat_completions_create env params = Inr gptResponse"
  shows "r = Inr (parse_analysis env gptResponse text) \<and> json_object params
       \<and> max_tokens params = 4000"
  using assms(2-4)
  by (auto simp: match_speakers_def has_participants_list [OF assms(1)] Let_def
      matching_request_def split: sum.splits)


lemma parse_analysis_parsed:
  assumes "first_content env gptResponse = Inr content" and "json_parse env content = Inr analysis"
  shows "parse_analysis env gptResponse text =
     (js_or (analysis_prop analysis ''transcript'') text,
      js_or (analysis_prop analysis ''speakers'') (JArr []),
      js_or (analysis_prop analysis ''meetingSummary'') (JStr []))"
  using assms
  by (simp add: parse_analysis_def analysis_prop_def get_prop_def js_or_def)

subsection \<open>The two handlers\<close>

lemma handler_cases:
  assumes "h = handler \<or> h = handler_part_000"
  shows "\<exists>download. h = handle download
          \<and> (\<forall>env u. \<forall>c \<in> set (fst (download env u)). \<exists>v. c = FetchCall v)
          \<and> (\<forall>env u cs f. download env u = (cs, Inr f) \<longrightarrow> (\<exists>url. cs = [FetchCall url]))"
  using assms
proof
  assume "h = handler"
  then show ?thesis
    using download_audio_calls download_success_calls(1)
    unfolding handler_def by blast
next
  assume "h = handler_part_000"
  then show ?thesis
    using download_audio_part_000_calls download_success_calls(2)
    unfolding handler_part_000_def by blast
qed

lemma handle_sent_files:
  assumes "req_method req = ''POST''"
    and "TranscriptionCall params \<in> set (snd (handle download env req))"
    and dl: "\<forall>u. \<forall>c \<in> set (fst (download env u)). \<exists>v. c = FetchCall v"
  shows "\<exists>cs content. download env (read_prop (req_body req) ''audioUrl'')
            = (cs, Inr (content, file_name params, file_type params))"
proof -
  have nn: "\<not> nullish (req_body req)"
    using assms(2) handle_early(1) [OF assms(1), of download env] by auto
  have au: "truthy (read_prop (req_body req) ''audioUrl'')"
  proof (rule ccontr)
    assume "\<not> ?thesis"
    from handle_early(2) [OF assms(1) nn this, of download env] assms(2)
    show False by (auto simp: bad_request_def)
  qed
  have key: "truthy (read_prop (req_body req) ''openaiApiKey'')"
  proof (rule ccontr)
    assume "\<not> ?thesis"
    from handle_early(3) [OF assms(1) nn au this, of download env] assms(2)
    show False by (auto simp: bad_request_def)
  qed
  obtain cs1 d where d: "download env (read_prop (req_body req) ''audioUrl'') = (cs1, d)"
    by (cases "download env (read_prop (req_body req) ''audioUrl'')")
  have cs1: "TranscriptionCall params \<notin> set cs1"
    using dl [THEN spec, of "read_prop (req_body req) ''audioUrl''"] d by auto
  show ?thesis
  proof (cases d)
    case (Inl e)
    with handle_valid [OF assms(1) nn au key, of download env] d assms(2) cs1
    show ?thesis by auto
  next
    case (Inr audioFile)
    obtain content fileName mimeType where f: "audioFile = (content, fileName, mimeType)"
      by (cases audioFile)
    obtain cs r where p: "process_audio env (read_prop (req_body req) ''meetingName'')
        (read_prop (req_body req) ''participants'') (read_prop (req_body req) ''openaiApiKey'')
        audioFile = (cs, r)"
      by (cases "process_audio env (read_prop (req_body req) ''meetingName'')
        (read_prop (req_body req) ''participants'') (read_prop (req_body req) ''openaiApiKey'')
        audioFile")
    from process_audio_calls [OF p] obtain cs3 where
      cs: "cs = TranscriptionCall
                 (transcription_request (read_prop (req_body req) ''openaiApiKey'') audioFile) # cs3"
      and cs3: "\<forall>c \<in> set cs3. \<exists>p. c = ChatCall p"
      by blast
    have "snd (handle download env req) = cs1 @ cs"
      using assms(1) nn au key d Inr p
      by (simp add: handle_def try_body_def destructure_def split: sum.splits prod.splits)
    with assms(2) cs1 cs cs3 f have "file_name params = fileName \<and> file_type params = mimeType"
      by (auto simp: transcription_request_def)
    with d Inr f show ?thesis by auto
  qed
qed

lemma fetched_append: "fetched (cs @ ds) = fetched cs @ fetched ds"
  by (induction cs rule: fetched.induct) auto

lemma fetched_chat_calls: "\<forall>c \<in> set cs. \<exists>p. c = ChatCall p \<Longrightarrow> fetched cs = []"
  by (induction cs rule: fetched.induct) auto

lemma handle_fetched:
  assumes "req_method req = ''POST''"
    and "\<not> nullish (req_body req)"
    and "truthy (read_prop (req_body req) ''audioUrl'')"
    and "truthy (read_prop (req_body req) ''openaiApiKey'')"
  shows "fetched (snd (handle download env req))
           = fetched (fst (download env (read_prop (req_body req) ''audioUrl'')))"
proof -
  obtain cs1 d where d: "download env (read_prop (req_body req) ''audioUrl'') = (cs1, d)"
    by (cases "download env (read_prop (req_body req) ''audioUrl'')")
  show ?thesis
  proof (cases d)
    case (Inl e)
    with d show ?thesis
      by (simp add: handle_def try_body_def destructure_def assms)
  next
    case (Inr audioFile)
    obtain cs r where p: "process_audio env (read_prop (req_body req) ''meetingName'')
        (read_prop (req_body req) ''participants'') (read_prop (req_body req) ''openaiApiKey'')
        audioFile = (cs, r)"
      by (cases "process_audio env (read_prop (req_body req) ''meetingName'')
        (read_prop (req_body req) ''participants'') (read_prop (req_body req) ''openaiApiKey'')
        audioFile")
    from process_audio_calls [OF p] have "fetched cs = []"
      by (auto simp: fetched_chat_calls)
    moreover have "snd (handle download env req) = cs1 @ cs"
      using assms d Inr p
      by (simp add: handle_def try_body_def destructure_def split: sum.splits prod.splits)
    ultimately show ?thesis using d by (simp add: fetched_append)
  qed
qed

lemma download_audio_string_calls:
  "fst (download_audio env (JStr url))
     = [FetchCall (JStr (if str_includes url ''workdrive.zoho''
                         then (if str_includes url ''?'' then url @ ''&directDownload=true''
                               else url @ ''?directDownload=true'')
                         else url))]"
  by (simp add: download_audio_def downloadUrl_def call_includes_def to_string_def
      fetch_audio_def split: sum.splits prod.splits)

subsection \<open>Running the scenarios\<close>

text \<open>The definitions that evaluate the handler on a concrete request in a concrete world.\<close>

lemmas run_defs =
  handler_def handler_part_000_def handle_def try_body_def destructure_def nullish_def post_def
  download_audio_def download_audio_part_000_def downloadUrl_def call_includes_def
  fetch_audio_def fetch_audio_part_000_def scenario_def audio_ok_def audio_404_def
  file_type_of_def detect_file_type_def toLowerCase_def toLower_def process_audio_def
  transcribe_audio_def hello_world_def get_prop_def match_speakers_def has_participants_def
  transcription_request_def greater_than_zero_def to_number_def to_string_def participantList_def participant_line_def
  parse_analysis_def json_parse_def
  summary_request_def first_content_def completion_def get_index_def result_def js_or_def
  json_response_def res_field_def bad_request_def transcription_failed_def v8_text_def

text \<open>The end-to-end scenario of the specification: the response and the calls.\<close>

lemma run_hello: "handler env_hello req_mp3 = 
      (json_response 200
         (JObj [(''success'', JBool True),
          (''meetingName'', JStr ''Untitled Meeting''),
          (''transcript'', JStr ''hello world''),
          (''rawTranscript'', JStr ''hello world''),
          (''segments'', JArr []),
          (''speakers'', JArr []),
          (''meetingSummary'', JStr ''They said hello.''),
          (''duration'', JNum 5),
          (''language'', JStr ''en'')]),
       [FetchCall (JStr ''https://host/f.mp3''),
        TranscriptionCall
          (transcription_request (JStr ''k'') ([73, 68, 51], ''audio.mp3'', ''audio/mpeg'')),
        ChatCall (summary_request (JStr ''k'') (JStr ''hello world''))])"
  by (simp add: env_hello_def req_mp3_def handler_def handle_def try_body_def destructure_def nullish_def post_def
     download_audio_def downloadUrl_def call_includes_def fetch_audio_def scenario_def audio_ok_def
     file_type_of_def detect_file_type_def toLowerCase_def toLower_def process_audio_def
     transcribe_audio_def hello_world_def get_prop_def match_speakers_def has_participants_def
     transcription_request_def first_content_def completion_def get_index_def result_def js_or_def)

text \<open>The calls for the request with two participants, whatever the language model answers.\<close>

lemma calls_participants:
  "snd (handler (scenario audio_ok hello_world c ps) req_participants)
     = [FetchCall (JStr ''https://host/f.mp3''),
        TranscriptionCall
          (transcription_request (JStr ''k'') ([73, 68, 51], ''audio.mp3'', ''audio/mpeg'')),
        ChatCall (matching_request (JStr ''k'') (matchingPrompt two_lines ''hello world''))]"
  "snd (handler_part_000 (scenario audio_ok hello_world c ps) req_participants)
     = [FetchCall (JStr ''https://host/f.mp3''),
        TranscriptionCall
          (transcription_request (JStr ''k'') ([73, 68, 51], ''audio.mp3'', ''audio/mpeg'')),
        ChatCall (matching_request (JStr ''k'') (matchingPrompt two_lines ''hello world''))]"
  by (simp_all add: run_defs req_participants_def two_participants_def two_lines_def decimal.simps Let_def
      split: sum.splits)

lemma first_content_completion: "first_content env (completion c) = get_prop env (JObj [(''role'', JStr ''assistant''), (''content'', c)]) ''content''"
  by (simp add: first_content_def completion_def get_prop_def get_index_def nullish_def)

lemma status_participants:
  "res_status (fst (handler env_refusal req_participants)) = 200"
  "res_status (fst (handler_part_000 env_labelled req_participants)) = 200"
  by (simp_all add: run_defs env_refusal_def env_labelled_def req_participants_def
      two_participants_def decimal.simps Let_def)

section \<open>The claims\<close>

subsection \<open>C1\<close>



subsection \<open>C2\<close>

text \<open>
  Claim C2.  Whenever a POST request is answered with status 200, by either copy of the
  handler, the transcription service was called and returned a transcription, and the
  \<^verbatim>\<open>rawTranscript\<close> field of the result is the \<^verbatim>\<open>text\<close> of that transcription, unchanged.  The
  statement does not look at the participants or at the chat completion, so it covers the
  three cases alike: attribution succeeded, its JSON did not parse, or it was skipped.
\<close>

theorem raw_transcript_verbatim:
  assumes "req_method req = ''POST''"
    and "h = handler \<or> h = handler_part_000"
    and "h env req = (res, calls)"
    and "res_status res = 200"
  shows "\<exists>params transcription.
           TranscriptionCall params \<in> set calls
         \<and> transcriptions_create env params = Inr transcription
         \<and> res_field res ''rawTranscript'' = Some (read_prop transcription ''text'')"
proof -
  from assms(2,3) obtain download where "handle download env req = (res, calls)"
    by (auto simp: handler_def handler_part_000_def)
  from handle_success [OF assms(1) this assms(4)]
  obtain cs1 audioFile cs2 transcription cs3 matched where
    t: "transcribe_audio env (read_prop (req_body req) ''openaiApiKey'') audioFile
          = (cs2, Inr transcription)"
    and res: "res = json_response 200
                (result (read_prop (req_body req) ''meetingName'') transcription matched)"
    and calls: "calls = cs1 @ cs2 @ cs3"
    by blast
  from transcribe_audio_Inr [OF t]
  obtain params where "cs2 = [TranscriptionCall params]"
    and "transcriptions_create env params = Inr transcription"
    by blast
  moreover obtain a b c where "matched = (a, b, c)" by (cases matched)
  ultimately show ?thesis
    using res calls by (auto simp: json_response_def result_def res_field_def)
qed

text \<open>
  Claim C2 at three runs: attribution skipped (the end-to-end scenario of the specification),
  attribution answered with text that does not parse, and attribution parsed.
\<close>

theorem raw_transcript_verbatim_witness:
  "req_method req_mp3 = ''POST'' \<and> req_method req_participants = ''POST''
   \<and> res_status (fst (handler env_hello req_mp3)) = 200
   \<and> res_field (fst (handler env_hello req_mp3)) ''rawTranscript'' = Some (JStr ''hello world'')
   \<and> res_status (fst (handler env_refusal req_participants)) = 200
   \<and> res_field (fst (handler env_refusal req_participants)) ''rawTranscript''
        = Some (JStr ''hello world'')
   \<and> res_status (fst (handler_part_000 env_labelled req_participants)) = 200
   \<and> res_field (fst (handler_part_000 env_labelled req_participants)) ''rawTranscript''
        = Some (JStr ''hello world'')"
proof -
  have m: "req_method req_mp3 = ''POST''" "req_method req_participants = ''POST''"
    by (simp_all add: req_mp3_def req_participants_def post_def)
  have s: "res_status (fst (handler env_hello req_mp3)) = 200"
    by (simp add: run_hello json_response_def)
  have t: "transcriptions_create env_hello p = Inr hello_world"
    "transcriptions_create env_refusal p = Inr hello_world"
    "transcriptions_create env_labelled p = Inr hello_world" for p
    by (simp_all add: env_hello_def env_refusal_def env_labelled_def scenario_def)
  have x: "read_prop hello_world ''text'' = JStr ''hello world''"
    by (simp add: hello_world_def)
  have "res_field (fst (handler env_hello req_mp3)) ''rawTranscript'' = Some (JStr ''hello world'')"
    using raw_transcript_verbatim [OF m(1) _ _ s, of handler env_hello "snd (handler env_hello req_mp3)"]
    by (auto simp: t x)
  moreover have "res_field (fst (handler env_refusal req_participants)) ''rawTranscript''
        = Some (JStr ''hello world'')"
    using raw_transcript_verbatim [OF m(2) _ _ status_participants(1), of handler env_refusal
        "snd (handler env_refusal req_participants)"]
    by (auto simp: t x)
  moreover have "res_field (fst (handler_part_000 env_labelled req_participants)) ''rawTranscript''
        = Some (JStr ''hello world'')"
    using raw_transcript_verbatim [OF m(2) _ _ status_participants(2), of handler_part_000
        env_labelled "snd (handler_part_000 env_labelled req_participants)"]
    by (auto simp: t x)
  ultimately show ?thesis using m s status_participants by simp
qed

subsection \<open>C3\<close>

text \<open>
  Claim C3, as amended.  The detection of \<^verbatim>\<open>src/api/transcribe.js\<close> is the function
  \<open>inferred_type\<close> of the URL string alone: the first of \<^verbatim>\<open>.mp3\<close>, \<^verbatim>\<open>.wav\<close>, \<^verbatim>\<open>.m4a\<close>, \<^verbatim>\<open>.mp4\<close>,
  \<^verbatim>\<open>.ogg\<close>, \<^verbatim>\<open>.webm\<close> that occurs in the URL ignoring case gives the MIME type and the file
  name, and \<^verbatim>\<open>audio/mp4\<close> with \<^verbatim>\<open>audio.m4a\<close> is the result when none occurs; every file that
  handler sends for transcription carries that pair.  The copy \<^verbatim>\<open>src/unnamed/part_000\<close> does
  no detection: every file it sends is \<^verbatim>\<open>audio.mp3\<close> of type \<^verbatim>\<open>audio/mpeg\<close>.
\<close>

theorem file_type_inference:
  assumes "req_method req = ''POST''" and "req_body req = JObj props"
    and "map_of props ''audioUrl'' = Some audioUrl"
  shows "detect_file_type url = inferred_type url
       \<and> (audioUrl = JStr url \<and> TranscriptionCall params \<in> set (snd (handler env req))
            \<longrightarrow> (file_type params, file_name params) = inferred_type url)
       \<and> (TranscriptionCall params \<in> set (snd (handler_part_000 env req))
            \<longrightarrow> (file_type params, file_name params) = (''audio/mpeg'', ''audio.mp3''))"
proof -
  have url: "read_prop (req_body req) ''audioUrl'' = audioUrl" using assms(2,3) by simp
  have "(file_type params, file_name params) = inferred_type url"
    if "audioUrl = JStr url" and "TranscriptionCall params \<in> set (snd (handler env req))"
  proof -
    from handle_sent_files [OF assms(1) that(2) [unfolded handler_def] download_audio_calls]
    obtain cs content where
      "download_audio env (read_prop (req_body req) ''audioUrl'')
         = (cs, Inr (content, file_name params, file_type params))"
      by blast
    then have "download_audio env (JStr url)
         = (cs, Inr (content, file_name params, file_type params))"
      using url that(1) by simp
    from download_audio_file [OF this] show ?thesis
      by (simp add: detect_file_type_refines)
  qed
  moreover have "(file_type params, file_name params) = (''audio/mpeg'', ''audio.mp3'')"
    if "TranscriptionCall params \<in> set (snd (handler_part_000 env req))"
  proof -
    from handle_sent_files [OF assms(1) that [unfolded handler_part_000_def]
        download_audio_part_000_calls]
    obtain cs content where
      "download_audio_part_000 env (read_prop (req_body req) ''audioUrl'')
         = (cs, Inr (content, file_name params, file_type params))"
      by blast
    from download_audio_part_000_file [OF this] show ?thesis by simp
  qed
  ultimately show ?thesis using detect_file_type_refines by blast
qed

text \<open>
  Claim C3, as amended, at a URL in which \<^verbatim>\<open>.WAV\<close> comes first and \<^verbatim>\<open>.mp3\<close> later: the
  precedence order decides for \<^verbatim>\<open>.mp3\<close>, not the position in the URL.
\<close>

theorem file_type_inference_witness:
  "req_method req_two_extensions = ''POST''
   \<and> inferred_type ''https://host/Talk.WAV?alt=x.mp3'' = (''audio/mpeg'', ''audio.mp3'')
   \<and> sent_files (snd (handler env_hello req_two_extensions)) = [inferred_type ''https://host/Talk.WAV?alt=x.mp3'']
   \<and> sent_files (snd (handler_part_000 env_hello req_two_extensions)) = [(''audio/mpeg'', ''audio.mp3'')]"
proof -
  let ?p = "transcription_request (JStr ''k'') ([73, 68, 51], ''audio.mp3'', ''audio/mpeg'')"
  have m: "req_method req_two_extensions = ''POST''" by (simp add: req_two_extensions_def post_def)
  have b: "req_body req_two_extensions = JObj [(''audioUrl'', JStr ''https://host/Talk.WAV?alt=x.mp3''),
                       (''openaiApiKey'', JStr ''k'')]"
    by (simp add: req_two_extensions_def post_def)
  have c: "snd (handler env_hello req_two_extensions)
      = [FetchCall (JStr ''https://host/Talk.WAV?alt=x.mp3''), TranscriptionCall ?p,
         ChatCall (summary_request (JStr ''k'') (JStr ''hello world''))]"
    by (simp add: run_defs env_hello_def req_two_extensions_def)
  have c': "snd (handler_part_000 env_hello req_two_extensions)
      = [FetchCall (JStr ''https://host/Talk.WAV?alt=x.mp3''), TranscriptionCall ?p,
         ChatCall (summary_request (JStr ''k'') (JStr ''hello world''))]"
    by (simp add: run_defs env_hello_def req_two_extensions_def)
  from file_type_inference [OF m b, of "JStr ''https://host/Talk.WAV?alt=x.mp3''"
      "''https://host/Talk.WAV?alt=x.mp3''" ?p env_hello]
  show ?thesis
    using m c c' by (simp add: transcription_request_def)
qed

text \<open>
  Claim C3 as stated fails on \<^verbatim>\<open>src/unnamed/part_000\<close>: for a URL ending in \<^verbatim>\<open>.wav\<close>, and for a
  URL with none of the extensions, the file sent is \<^verbatim>\<open>audio.mp3\<close> of type \<^verbatim>\<open>audio/mpeg\<close>,
  where the rule of the claim gives \<^verbatim>\<open>audio/wav\<close> and \<^verbatim>\<open>audio/mp4\<close>.
\<close>

theorem file_type_counterexample:
  "sent_files (snd (handler_part_000 env_hello req_wav)) = [(''audio/mpeg'', ''audio.mp3'')]
   \<and> detect_file_type ''https://host/memo.wav'' = (''audio/wav'', ''audio.wav'')
   \<and> sent_files (snd (handler_part_000 env_hello (post (JObj [(''audioUrl'', JStr ''https://host/memo''),
                       (''openaiApiKey'', JStr ''k'')]))))
        = [(''audio/mpeg'', ''audio.mp3'')]
   \<and> detect_file_type ''https://host/memo'' = (''audio/mp4'', ''audio.m4a'')"
  by (simp add: run_defs env_hello_def req_wav_def)

subsection \<open>C4\<close>




subsection \<open>C5\<close>



subsection \<open>C6\<close>

text \<open>
  Claim C6, as amended.  A valid POST request whose download is answered with a non-success
  response fails with status 500 and \<^verbatim>\<open>error: "Transcription failed"\<close>, and the fetch is the
  only call made: neither the transcription service nor the language model is called.  In
  \<^verbatim>\<open>src/api/transcribe.js\<close> the message is \<^verbatim>\<open>Failed to download audio file: \<close> followed by the
  status, a space and the status text; in \<^verbatim>\<open>src/unnamed/part_000\<close> it is the fixed text
  \<^verbatim>\<open>Failed to download audio file\<close>, without status.
\<close>

theorem download_failure:
  assumes "req_method req = ''POST''"
    and "req_body req = JObj props"
    and "map_of props ''audioUrl'' = Some audioUrl" and "truthy audioUrl"
    and "map_of props ''openaiApiKey'' = Some openaiApiKey" and "truthy openaiApiKey"
    and "\<not> ok audioResponse"
  shows "(downloadUrl env audioUrl = Inr url \<and> fetch env url = Inr audioResponse
            \<longrightarrow> handler env req
                  = (transcription_failed
                       (''Failed to download audio file: '' @ decimal (status audioResponse)
                        @ '' '' @ statusText audioResponse),
                     [FetchCall url]))
       \<and> (fetch env audioUrl = Inr audioResponse
            \<longrightarrow> handler_part_000 env req
                  = (transcription_failed ''Failed to download audio file'',
                     [FetchCall audioUrl]))"
proof -
  have nn: "\<not> nullish (req_body req)" using assms(2) by (simp add: nullish_def)
  have au: "truthy (read_prop (req_body req) ''audioUrl'')" using assms(2-4) by simp
  have key: "truthy (read_prop (req_body req) ''openaiApiKey'')" using assms(2,5,6) by simp
  have url: "read_prop (req_body req) ''audioUrl'' = audioUrl" using assms(2,3) by simp
  show ?thesis
    using assms(7)
    by (auto simp: handler_def handler_part_000_def handle_valid [OF assms(1) nn au key] url
        download_audio_def download_audio_part_000_def fetch_audio_def fetch_audio_part_000_def)
qed

text \<open>Claim C6, as amended, at a download answered with 404 Not Found.\<close>

theorem download_failure_witness:
  "handler env_404 req_mp3
     = (transcription_failed ''Failed to download audio file: 404 Not Found'',
        [FetchCall (JStr ''https://host/f.mp3'')])
   \<and> handler_part_000 env_404 req_mp3
     = (transcription_failed ''Failed to download audio file'',
        [FetchCall (JStr ''https://host/f.mp3'')])
   \<and> str_includes ''Failed to download audio file: 404 Not Found'' ''404''"
  using download_failure [where req = req_mp3 and env = env_404 and audioResponse = audio_404
      and props = "[(''audioUrl'', JStr ''https://host/f.mp3''), (''openaiApiKey'', JStr ''k'')]"
      and audioUrl = "JStr ''https://host/f.mp3''" and openaiApiKey = "JStr ''k''"
      and url = "JStr ''https://host/f.mp3''"]
  by (simp add: req_mp3_def post_def env_404_def scenario_def audio_404_def downloadUrl_def
      call_includes_def decimal.simps)

text \<open>
  Claim C6 as stated fails on \<^verbatim>\<open>src/unnamed/part_000\<close>: for a download answered with 404 the
  message does not contain \<^verbatim>\<open>404\<close>.
\<close>

theorem download_error_counterexample:
  "handler_part_000 env_404 req_mp3
     = (transcription_failed ''Failed to download audio file'',
        [FetchCall (JStr ''https://host/f.mp3'')])
   \<and> status audio_404 = 404
   \<and> str_includes ''Failed to download audio file'' ''404'' = False"
  by (simp add: run_defs env_404_def req_mp3_def)

subsection \<open>C7\<close>

text \<open>
  Claim C7.  For a valid POST request to the handler of \<^verbatim>\<open>src/api/transcribe.js\<close> whose
  \<^verbatim>\<open>audioUrl\<close> is a string, exactly one URL is fetched: when \<^verbatim>\<open>workdrive.zoho\<close> occurs in the
  URL, it is the URL followed by \<^verbatim>\<open>&directDownload=true\<close> if the URL contains a \<^verbatim>\<open>?\<close> and by
  \<^verbatim>\<open>?directDownload=true\<close> otherwise; when it does not occur, it is the URL unchanged.
\<close>

theorem workdrive_rewrite:
  assumes "req_method req = ''POST''" and "req_body req = JObj props"
    and "map_of props ''audioUrl'' = Some (JStr url)" and "url \<noteq> []"
    and "map_of props ''openaiApiKey'' = Some openaiApiKey" and "truthy openaiApiKey"
  shows "((\<exists>p q. url = p @ ''workdrive.zoho'' @ q) \<and> (\<exists>p q. url = p @ ''?'' @ q)
            \<longrightarrow> fetched (snd (handler env req)) = [JStr (url @ ''&directDownload=true'')])
       \<and> ((\<exists>p q. url = p @ ''workdrive.zoho'' @ q) \<and> \<not> (\<exists>p q. url = p @ ''?'' @ q)
            \<longrightarrow> fetched (snd (handler env req)) = [JStr (url @ ''?directDownload=true'')])
       \<and> (\<not> (\<exists>p q. url = p @ ''workdrive.zoho'' @ q)
            \<longrightarrow> fetched (snd (handler env req)) = [JStr url])"
proof -
  have nn: "\<not> nullish (req_body req)" using assms(2) by (simp add: nullish_def)
  have au: "truthy (read_prop (req_body req) ''audioUrl'')" using assms(2-4) by simp
  have key: "truthy (read_prop (req_body req) ''openaiApiKey'')" using assms(2,5,6) by simp
  have "fetched (snd (handler env req)) = fetched (fst (download_audio env (JStr url)))"
    using handle_fetched [OF assms(1) nn au key, of download_audio env] assms(2,3)
    by (simp add: handler_def)
  then show ?thesis
    by (simp add: download_audio_string_calls str_includes_iff)
qed

text \<open>Claim C7 at a WorkDrive URL without query, one with a query, and another host.\<close>

theorem workdrive_rewrite_witness:
  "fetched (snd (handler env_hello req_workdrive))
     = [JStr ''https://workdrive.zoho.com/file/a1.m4a?directDownload=true'']
   \<and> fetched (snd (handler env_hello req_workdrive_query))
     = [JStr ''https://workdrive.zoho.com/file?id=a1&directDownload=true'']
   \<and> fetched (snd (handler env_hello req_mp3)) = [JStr ''https://host/f.mp3'']"
proof -
  have 1: "str_includes ''https://workdrive.zoho.com/file/a1.m4a'' ''workdrive.zoho''"
    and 2: "\<not> str_includes ''https://workdrive.zoho.com/file/a1.m4a'' ''?''"
    and 3: "str_includes ''https://workdrive.zoho.com/file?id=a1'' ''workdrive.zoho''"
    and 4: "str_includes ''https://workdrive.zoho.com/file?id=a1'' ''?''"
    and 5: "\<not> str_includes ''https://host/f.mp3'' ''workdrive.zoho''"
    by simp_all
  show ?thesis
    using workdrive_rewrite [where req = req_workdrive and env = env_hello and openaiApiKey = "JStr ''k''"
        and url = "''https://workdrive.zoho.com/file/a1.m4a''"
        and props = "[(''audioUrl'', JStr ''https://workdrive.zoho.com/file/a1.m4a''),
                             (''openaiApiKey'', JStr ''k'')]"]
      workdrive_rewrite [where req = req_workdrive_query and env = env_hello and openaiApiKey = "JStr ''k''"
        and url = "''https://workdrive.zoho.com/file?id=a1''"
        and props = "[(''audioUrl'', JStr ''https://workdrive.zoho.com/file?id=a1''),
                             (''openaiApiKey'', JStr ''k'')]"]
      workdrive_rewrite [where req = req_mp3 and env = env_hello and openaiApiKey = "JStr ''k''"
        and url = "''https://host/f.mp3''"
        and props = "[(''audioUrl'', JStr ''https://host/f.mp3''), (''openaiApiKey'', JStr ''k'')]"]
      1 2 3 4 5
    unfolding str_includes_iff
    by (simp add: req_workdrive_def req_workdrive_query_def req_mp3_def post_def)
qed

subsection \<open>C8\<close>

text \<open>
  Claim C8, as amended.  Take a POST request with a non-empty \<^verbatim>\<open>participants\<close> array, handled
  by either copy, whose attribution response was parsed to \<open>analysis\<close>.  The status is 200 and
  the result uses \<^verbatim>\<open>analysis.transcript\<close>, \<^verbatim>\<open>analysis.speakers\<close> and \<^verbatim>\<open>analysis.meetingSummary\<close>
  where they are truthy; a property that is missing, or present with a falsy value (the
  empty string, \<^verbatim>\<open>null\<close>, \<^verbatim>\<open>false\<close>, \<^verbatim>\<open>0\<close>), is replaced by the raw transcript, the empty array
  and the empty string respectively.
\<close>

theorem parsed_attribution:
  assumes "req_method req = ''POST''"
    and "h = handler \<or> h = handler_part_000"
    and "req_body req = JObj props"
    and "map_of props ''participants'' = Some (JArr ps)" and "ps \<noteq> []"
    and "h env req = (res, calls)"
    and "ChatCall params \<in> set calls"
    and "chat_completions_create env params = Inr gptResponse"
    and "first_content env gptResponse = Inr content"
    and "json_parse env content = Inr analysis"
  shows "res_status res = 200
       \<and> (\<exists>text. res_field res ''rawTranscript'' = Some text
                 \<and> res_field res ''transcript''
                     = Some (if truthy (analysis_prop analysis ''transcript'')
                             then analysis_prop analysis ''transcript'' else text))
       \<and> res_field res ''speakers''
           = Some (if truthy (analysis_prop analysis ''speakers'')
                   then analysis_prop analysis ''speakers'' else JArr [])
       \<and> res_field res ''meetingSummary''
           = Some (if truthy (analysis_prop analysis ''meetingSummary'')
                   then analysis_prop analysis ''meetingSummary'' else JStr [])"
proof -
  from handler_cases [OF assms(2)] obtain download where
    h: "h = handle download"
    and dl: "\<forall>u. \<forall>c \<in> set (fst (download env u)). \<exists>v. c = FetchCall v"
    by blast
  have p: "read_prop (req_body req) ''participants'' = JArr ps"
    using assms(3,4) by simp
  from handle_chat_call [OF assms(1) assms(6) [unfolded h] assms(7) dl]
  obtain transcription cs3 r where
    m: "match_speakers env (read_prop (req_body req) ''openaiApiKey'')
              (JArr ps) (read_prop transcription ''text'') = (cs3, r)"
    and c: "ChatCall params \<in> set cs3"
    and res: "res = (case r of
                    Inl e \<Rightarrow> transcription_failed (message e)
                  | Inr matched \<Rightarrow>
                      json_response 200
                        (result (read_prop (req_body req) ''meetingName'') transcription matched))"
    unfolding p by blast
  from match_speakers_list [OF assms(5) m c assms(8)]
  have "r = Inr (parse_analysis env gptResponse (read_prop transcription ''text''))"
    by simp
  with res show ?thesis
    unfolding parse_analysis_parsed [OF assms(9,10)]
    by (simp add: json_response_def result_def res_field_def js_or_def)
qed

text \<open>Claim C8, as amended, at an analysis with the three properties present and truthy.\<close>

theorem parsed_attribution_witness:
  "req_method req_participants = ''POST''
   \<and> json_parse env_labelled (JStr labelled_text) = Inr labelled
   \<and> res_status (fst (handler env_labelled req_participants)) = 200
   \<and> res_field (fst (handler env_labelled req_participants)) ''rawTranscript'' = Some (JStr ''hello world'')
   \<and> res_field (fst (handler env_labelled req_participants)) ''transcript'' = Some (JStr ''Ana: hello world'')
   \<and> res_field (fst (handler env_labelled req_participants)) ''speakers''
        = Some (JArr [JObj [(''name'', JStr ''Ana''), (''wordCount'', JNum 2),
                            (''summary'', JStr ''Greets.'')]])
   \<and> res_field (fst (handler env_labelled req_participants)) ''meetingSummary'' = Some (JStr ''A greeting.'')"
proof -
  let ?g = "completion (JStr labelled_text)"
  let ?p = "matching_request (JStr ''k'') (matchingPrompt two_lines ''hello world'')"
  have m: "req_method req_participants = ''POST''" by (simp add: req_participants_def post_def)
  have b: "req_body req_participants = JObj [(''audioUrl'', JStr ''https://host/f.mp3''),
                    (''meetingName'', JStr ''Standup''),
                    (''participants'', two_participants),
                    (''openaiApiKey'', JStr ''k'')]"
    by (simp add: req_participants_def post_def)
  have ps: "map_of [(''audioUrl'', JStr ''https://host/f.mp3''),
                    (''meetingName'', JStr ''Standup''),
                    (''participants'', two_participants),
                    (''openaiApiKey'', JStr ''k'')] ''participants''
            = Some (JArr [JObj [(''speaker'', JStr ''Ana''),
                                (''sampleQuote'', JStr ''hello everyone'')],
                          JObj [(''speaker'', JStr ''Ben'')]])"
    by (simp add: two_participants_def)
  have c: "ChatCall ?p \<in> set (snd (handler env_labelled req_participants))"
    by (simp add: env_labelled_def calls_participants)
  have g: "chat_completions_create env_labelled ?p = Inr ?g"
    by (simp add: env_labelled_def scenario_def)
  have f: "first_content env_labelled ?g = Inr (JStr labelled_text)"
    by (simp add: first_content_completion get_prop_def nullish_def)
  have j: "json_parse env_labelled (JStr labelled_text) = Inr labelled"
    by (simp add: json_parse_def to_string_def env_labelled_def scenario_def)
  have r: "res_field (fst (handler env_labelled req_participants)) ''rawTranscript'' = Some (JStr ''hello world'')"
    by (simp add: run_defs env_labelled_def req_participants_def two_participants_def decimal.simps Let_def)
  show ?thesis
    using m j r parsed_attribution [OF m _ b ps _ _ c g f j, of handler "fst (handler env_labelled req_participants)"]
    by (simp add: analysis_prop_def nullish_def labelled_def)
qed

text \<open>
  Claim C8 as stated fails: for the parsed analysis
  \<^verbatim>\<open>{"transcript":"","speakers":null,"meetingSummary":"A greeting."}\<close> the property \<^verbatim>\<open>transcript\<close>
  is present, and the result's \<^verbatim>\<open>transcript\<close> is the raw transcript, not the empty string.
\<close>

theorem blank_transcript_counterexample:
  "json_parse env_blank (JStr blank_text) = Inr blank
   \<and> read_prop blank ''transcript'' = JStr []
   \<and> read_prop blank ''speakers'' = JNull
   \<and> res_field (fst (handler env_blank req_participants)) ''transcript'' = Some (JStr ''hello world'')
   \<and> res_field (fst (handler env_blank req_participants)) ''speakers'' = Some (JArr [])"
  by (simp add: run_defs env_blank_def req_participants_def two_participants_def blank_def decimal.simps Let_def)

subsection \<open>C9\<close>

text \<open>
  Claim C9, as amended.  Whenever a POST request is answered with status 200, by either copy
  of the handler, each of \<^verbatim>\<open>segments\<close>, \<^verbatim>\<open>duration\<close> and \<^verbatim>\<open>language\<close> of the result is the property
  of the transcription, unchanged, when that property is truthy, and the default (the empty
  array, 0, \<^verbatim>\<open>en\<close>) when it is missing or present with a falsy value (\<^verbatim>\<open>null\<close>, \<^verbatim>\<open>false\<close>, \<^verbatim>\<open>0\<close>,
  the empty string).
\<close>

theorem transcription_defaults:
  assumes "req_method req = ''POST''"
    and "h = handler \<or> h = handler_part_000"
    and "h env req = (res, calls)"
    and "res_status res = 200"
  shows "\<exists>params transcription.
           TranscriptionCall params \<in> set calls
         \<and> transcriptions_create env params = Inr transcription
         \<and> res_field res ''segments''
             = Some (if truthy (read_prop transcription ''segments'')
                     then read_prop transcription ''segments'' else JArr [])
         \<and> res_field res ''duration''
             = Some (if truthy (read_prop transcription ''duration'')
                     then read_prop transcription ''duration'' else JNum 0)
         \<and> res_field res ''language''
             = Some (if truthy (read_prop transcription ''language'')
                     then read_prop transcription ''language'' else JStr ''en'')"
proof -
  from assms(2,3) obtain download where "handle download env req = (res, calls)"
    by (auto simp: handler_def handler_part_000_def)
  from handle_success [OF assms(1) this assms(4)]
  obtain cs1 audioFile cs2 transcription cs3 matched where
    t: "transcribe_audio env (read_prop (req_body req) ''openaiApiKey'') audioFile
          = (cs2, Inr transcription)"
    and res: "res = json_response 200
                (result (read_prop (req_body req) ''meetingName'') transcription matched)"
    and calls: "calls = cs1 @ cs2 @ cs3"
    by blast
  from transcribe_audio_Inr [OF t]
  obtain params where "cs2 = [TranscriptionCall params]"
    and "transcriptions_create env params = Inr transcription"
    by blast
  moreover obtain a b c where "matched = (a, b, c)" by (cases matched)
  ultimately show ?thesis
    using res calls by (auto simp: json_response_def result_def res_field_def js_or_def)
qed

text \<open>Claim C9, as amended, at a transcription that has a \<^verbatim>\<open>text\<close> and nothing else.\<close>

theorem transcription_defaults_witness:
  "req_method req_mp3 = ''POST'' \<and> res_status (fst (handler env_text_only req_mp3)) = 200
   \<and> res_field (fst (handler env_text_only req_mp3)) ''segments'' = Some (JArr [])
   \<and> res_field (fst (handler env_text_only req_mp3)) ''duration'' = Some (JNum 0)
   \<and> res_field (fst (handler env_text_only req_mp3)) ''language'' = Some (JStr ''en'')"
proof -
  have m: "req_method req_mp3 = ''POST''" by (simp add: req_mp3_def post_def)
  have s: "res_status (fst (handler env_text_only req_mp3)) = 200"
    by (simp add: run_defs env_text_only_def req_mp3_def text_only_def)
  have h: "handler = handler \<or> handler = handler_part_000" by simp
  have e: "handler env_text_only req_mp3 = (fst (handler env_text_only req_mp3), snd (handler env_text_only req_mp3))"
    by simp
  from transcription_defaults [OF m h e s]
  obtain params transcription where
    t: "transcriptions_create env_text_only params = Inr transcription"
    and f: "res_field (fst (handler env_text_only req_mp3)) ''segments''
             = Some (if truthy (read_prop transcription ''segments'')
                     then read_prop transcription ''segments'' else JArr [])"
      "res_field (fst (handler env_text_only req_mp3)) ''duration''
             = Some (if truthy (read_prop transcription ''duration'')
                     then read_prop transcription ''duration'' else JNum 0)"
      "res_field (fst (handler env_text_only req_mp3)) ''language''
             = Some (if truthy (read_prop transcription ''language'')
                     then read_prop transcription ''language'' else JStr ''en'')"
    by blast
  from t have "transcription = text_only" by (simp add: env_text_only_def scenario_def)
  with f m s show ?thesis by (simp add: text_only_def)
qed

text \<open>
  Claim C9 as stated fails: a transcription with \<^verbatim>\<open>language: ""\<close> has the field present, and
  the result's \<^verbatim>\<open>language\<close> is \<^verbatim>\<open>en\<close>, not the value passed through.
\<close>

theorem empty_language_counterexample:
  "transcriptions_create env_no_language
      (transcription_request (JStr ''k'') ([73, 68, 51], ''audio.mp3'', ''audio/mpeg''))
     = Inr no_language
   \<and> read_prop no_language ''language'' = JStr []
   \<and> res_field (fst (handler env_no_language req_mp3)) ''language'' = Some (JStr ''en'')
   \<and> res_field (fst (handler_part_000 env_no_language req_mp3)) ''language'' = Some (JStr ''en'')"
  by (simp add: run_defs env_no_language_def req_mp3_def no_language_def)

subsection \<open>C10\<close>

text \<open>
  Claim C10, as amended.  For a POST request whose body is \<^verbatim>\<open>undefined\<close> or \<^verbatim>\<open>null\<close> the
  destructuring throws inside the outer \<^verbatim>\<open>try\<close>, and the response is the 500 one,
  \<^verbatim>\<open>{ error: "Transcription failed", message: <the TypeError's text> }\<close>, with no call made.
  A body that is a boolean, a number, a string or an array is not an object either, but
  destructuring it does not throw: the four names read as \<^verbatim>\<open>undefined\<close>, and the response is
  the 400 one with \<^verbatim>\<open>audioUrl is required\<close>.
\<close>

theorem body_destructuring:
  assumes "req_method req = ''POST''"
  shows "(req_body req = JUndefined \<or> req_body req = JNull
            \<longrightarrow> handler env req
                  = (transcription_failed (TypeErrorText env (CannotDestructure (req_body req))), [])
              \<and> handler_part_000 env req
                  = (transcription_failed (TypeErrorText env (CannotDestructure (req_body req))), []))
       \<and> ((\<exists>b. req_body req = JBool b) \<or> (\<exists>n. req_body req = JNum n)
            \<or> (\<exists>s. req_body req = JStr s) \<or> (\<exists>xs. req_body req = JArr xs)
            \<longrightarrow> handler env req = bad_request ''audioUrl is required''
              \<and> handler_part_000 env req = bad_request ''audioUrl is required'')"
proof -
  have "nullish (req_body req)" if "req_body req = JUndefined \<or> req_body req = JNull"
    using that by (auto simp: nullish_def)
  moreover have "\<not> nullish (req_body req) \<and> \<not> truthy (read_prop (req_body req) ''audioUrl'')"
    if "(\<exists>b. req_body req = JBool b) \<or> (\<exists>n. req_body req = JNum n)
        \<or> (\<exists>s. req_body req = JStr s) \<or> (\<exists>xs. req_body req = JArr xs)"
    using that by (auto simp: nullish_def)
  ultimately show ?thesis
    using handle_early(1) [OF assms] handle_early(2) [OF assms]
    unfolding handler_def handler_part_000_def by blast
qed

text \<open>Claim C10, as amended, at the bodies \<^verbatim>\<open>undefined\<close>, \<^verbatim>\<open>null\<close> and \<^verbatim>\<open>[]\<close>.\<close>

theorem body_destructuring_witness:
  "handler env_hello (post JUndefined)
     = (transcription_failed
          ''Cannot destructure property 'audioUrl' of 'req.body' as it is undefined.'', [])
   \<and> handler_part_000 env_hello (post JNull)
     = (transcription_failed
          ''Cannot destructure property 'audioUrl' of 'req.body' as it is null.'', [])
   \<and> handler env_hello (post (JArr [])) = bad_request ''audioUrl is required''"
  using body_destructuring [of "post JUndefined" env_hello] body_destructuring [of "post JNull" env_hello]
    body_destructuring [of "post (JArr [])" env_hello]
  by (simp add: post_def env_hello_def scenario_def v8_text_def)

text \<open>
  Claim C10 as stated fails: the text body \<^verbatim>\<open>hello\<close> and the JSON body \<^verbatim>\<open>5\<close> are not
  objects, and the answer is the 400 validation message, not the 500 response.
\<close>

theorem text_body_counterexample:
  "res_status (fst (handler env_hello (post (JStr ''hello'')))) = 400
   \<and> res_body (fst (handler env_hello (post (JStr ''hello''))))
        = Some (JObj [(''error'', JStr ''audioUrl is required'')])
   \<and> res_status (fst (handler_part_000 env_hello (post (JNum 5)))) = 400"
  by (simp add: run_defs env_hello_def)

end
